theory Spec2Isabelle
  imports Main "HOL-Library.Multiset" "HOL-Library.Char_ord" "HOL-Library.List_Lexorder"
    "HOL-Library.Option_ord"
begin

section \<open>The airline database: tables, engine and the query/update layer\<close>

text \<open>
  The repository keeps four tables in an SQLite file (\<^verbatim>\<open>flight.db\<close>) and works on
  them through Python's \<^verbatim>\<open>sqlite3\<close> module. The functions of
  \<^verbatim>\<open>database_queries.py\<close> and \<^verbatim>\<open>airline_database.py\<close> are embedded below as
  functions on an explicit \<open>world\<close>: the committed database, the table of connections
  opened so far, and what has been printed. The storage engine itself is not part of the
  repository; the part of its behaviour that the code relies on (binding of parameters,
  comparison and storage in \<^verbatim>\<open>STRICT\<close> text columns, joins, transactions, closing) is
  written out in the first subsections.
\<close>

subsection \<open>Values\<close>

text \<open>
  \<open>pyval\<close>: the Python values a caller passes for an argument (\<^verbatim>\<open>None\<close>, a
  \<^verbatim>\<open>str\<close>, an \<^verbatim>\<open>int\<close>, a \<^verbatim>\<open>bytes\<close>). A \<^verbatim>\<open>str\<close> is kept as the bytes of
  its UTF-8 encoding. \<open>sqlval\<close>: the storage classes of SQLite.
\<close>

datatype pyval = PNone | PStr string | PInt int | PBytes string

datatype sqlval = SNull | SInt int | SText string | SBlob string

datatype error =
    IntegrityError | OverflowError | ProgrammingError | OperationalError
  | AttributeError | EOFError

text \<open>Python's truth test, as used by \<^verbatim>\<open>if flight_number:\<close>.\<close>

fun truthy :: "pyval \<Rightarrow> bool" where
  "truthy PNone = False"
| "truthy (PStr s) = (s \<noteq> [])"
| "truthy (PInt i) = (i \<noteq> 0)"
| "truthy (PBytes b) = (b \<noteq> [])"

text \<open>
  Binding a Python value to a \<^verbatim>\<open>?\<close> placeholder. An \<^verbatim>\<open>int\<close> outside the signed
  64-bit range raises \<^verbatim>\<open>OverflowError\<close>.
\<close>

fun bind_param :: "pyval \<Rightarrow> error + sqlval" where
  "bind_param PNone = Inr SNull"
| "bind_param (PStr s) = Inr (SText s)"
| "bind_param (PInt i) =
     (if - (2 ^ 63) \<le> i \<and> i < 2 ^ 63 then Inr (SInt i) else Inl OverflowError)"
| "bind_param (PBytes b) = Inr (SBlob b)"

fun bind_params :: "pyval list \<Rightarrow> error + sqlval list" where
  "bind_params [] = Inr []"
| "bind_params (v # vs) =
     (case bind_param v of
        Inl e \<Rightarrow> Inl e
      | Inr b \<Rightarrow> (case bind_params vs of Inl e \<Rightarrow> Inl e | Inr bs \<Rightarrow> Inr (b # bs)))"

text \<open>Decimal text of an integer, as SQLite renders an integer given to a text column.\<close>

fun digits10 :: "nat \<Rightarrow> string" where
  "digits10 n =
     (if n < 10 then [''0123456789'' ! n]
      else digits10 (n div 10) @ [''0123456789'' ! (n mod 10)])"

declare digits10.simps [simp del]

definition text_of_int :: "int \<Rightarrow> string" where
  "text_of_int i = (if i < 0 then CHR ''-'' # digits10 (nat (- i)) else digits10 (nat i))"

text \<open>
  \<^verbatim>\<open>column = ?\<close> for a column of declared type \<^verbatim>\<open>TEXT\<close>: the column's text affinity
  is applied to the bound value, so an integer is compared as its decimal text; a blob
  is never equal to a text; a comparison with \<^verbatim>\<open>NULL\<close> on either side is not true.
\<close>

fun text_eq :: "string option \<Rightarrow> sqlval \<Rightarrow> bool" where
  "text_eq None v = False"
| "text_eq (Some s) (SText t) = (s = t)"
| "text_eq (Some s) (SInt i) = (s = text_of_int i)"
| "text_eq (Some s) (SBlob b) = False"
| "text_eq (Some s) SNull = False"

text \<open>
  Storing a bound value in a \<^verbatim>\<open>TEXT\<close> column of a \<^verbatim>\<open>STRICT\<close> table: an integer is
  converted to text, a blob is rejected (\<^verbatim>\<open>cannot store BLOB value in TEXT column\<close>,
  an \<^verbatim>\<open>IntegrityError\<close>), and \<^verbatim>\<open>NULL\<close> is rejected by a \<^verbatim>\<open>NOT NULL\<close> column.
\<close>

fun store_text :: "sqlval \<Rightarrow> error + string option" where
  "store_text SNull = Inr None"
| "store_text (SText t) = Inr (Some t)"
| "store_text (SInt i) = Inr (Some (text_of_int i))"
| "store_text (SBlob b) = Inl IntegrityError"

fun store_text_not_null :: "sqlval \<Rightarrow> error + string" where
  "store_text_not_null SNull = Inl IntegrityError"
| "store_text_not_null (SText t) = Inr t"
| "store_text_not_null (SInt i) = Inr (text_of_int i)"
| "store_text_not_null (SBlob b) = Inl IntegrityError"

subsection \<open>The four tables\<close>

text \<open>
  \<^verbatim>\<open>create_database_tables\<close>: the columns of each table, with the nullable ones as
  options. Field names carry the alias the queries give the table
  (\<^verbatim>\<open>dp\<close>, \<^verbatim>\<open>df\<close>, \<^verbatim>\<open>dd\<close>, \<^verbatim>\<open>fs\<close>). A table is the list of its rows in rowid order.
\<close>

record pilot =
  dp_pilot_ID :: string
  dp_first_name :: string
  dp_last_name :: string
  dp_licence_number :: string
  dp_licence_expiry :: string
  dp_night_flag :: int

record flight =
  df_flight_ID :: int
  df_flight_number :: string
  df_departure_destination_code :: string
  df_arrival_destination_code :: string
  df_scheduled_departure_time :: string
  df_scheduled_arrival_time :: string

record destination =
  dd_destination_code :: string
  dd_airport_name :: string
  dd_city :: string
  dd_country :: string

record schedule =
  fs_schedule_ID :: int
  fs_departure_date :: string
  fs_actual_departure_time :: "string option"
  fs_actual_arrival_time :: "string option"
  fs_flight_ID :: int
  fs_pilot_ID :: "string option"
  fs_status :: string

record db =
  d_pilot :: "pilot list"
  d_flight :: "flight list"
  d_destination :: "destination list"
  f_schedule :: "schedule list"

definition empty_db :: db where
  "empty_db = \<lparr>d_pilot = [], d_flight = [], d_destination = [], f_schedule = []\<rparr>"

subsection \<open>Statement text: tokens and clauses\<close>

text \<open>
  The three \<^verbatim>\<open>fetch_\<close> functions build the text of their statement at run time, by
  string concatenation. The engine reads that text as a sequence of tokens: blanks
  separate tokens, each of \<^verbatim>\<open>, = ( )\<close> is a token, a \<^verbatim>\<open>?\<close> followed by digits is a
  placeholder token that ends before the first character that is not a digit, and any
  other run of characters is a word.
\<close>

definition is_space :: "char \<Rightarrow> bool" where
  "is_space c = (c = CHR '' '' \<or> c = CHR 0x0A \<or> c = CHR 0x09 \<or> c = CHR 0x0D)"

definition is_punct :: "char \<Rightarrow> bool" where
  "is_punct c = (c = CHR '','' \<or> c = CHR ''='' \<or> c = CHR ''('' \<or> c = CHR '')'')"

definition is_digit :: "char \<Rightarrow> bool" where
  "is_digit c = (c \<in> set ''0123456789'')"

fun flush :: "string \<Rightarrow> string list" where
  "flush [] = []"
| "flush (c # cs) = [c # cs]"

fun is_placeholder :: "string \<Rightarrow> bool" where
  "is_placeholder [] = False"
| "is_placeholder (c # cs) = (c = CHR ''?'')"

fun sql_lex_aux :: "string \<Rightarrow> string \<Rightarrow> string list" where
  "sql_lex_aux acc [] = flush acc"
| "sql_lex_aux acc (c # cs) =
     (if is_space c then flush acc @ sql_lex_aux [] cs
      else if is_punct c then flush acc @ [c] # sql_lex_aux [] cs
      else if c = CHR ''?'' then flush acc @ sql_lex_aux [c] cs
      else if is_placeholder acc \<and> \<not> is_digit c then flush acc @ sql_lex_aux [c] cs
      else sql_lex_aux (acc @ [c]) cs)"

definition sql_lex :: "string \<Rightarrow> string list" where
  "sql_lex s = sql_lex_aux [] s"

text \<open>
  The clauses after the joins: everything from the first \<^verbatim>\<open>WHERE\<close> or \<^verbatim>\<open>ORDER\<close>
  token on. The grammar the composed statements use is
  \<^verbatim>\<open>[WHERE col = ? {AND col = ?}] [ORDER BY col DESC]\<close>; a text outside it is a syntax
  error.
\<close>

definition clause_tokens :: "string list \<Rightarrow> string list" where
  "clause_tokens ts = dropWhile (\<lambda>t. t \<noteq> ''WHERE'' \<and> t \<noteq> ''ORDER'') ts"

fun parse_order :: "string list \<Rightarrow> string option option" where
  "parse_order [] = Some None"
| "parse_order [o1, b, c, d] =
     (if o1 = ''ORDER'' \<and> b = ''BY'' \<and> d = ''DESC'' then Some (Some c) else None)"
| "parse_order ts = None"

fun parse_preds :: "string list \<Rightarrow> (string list \<times> string option) option" where
  "parse_preds (c # e # q # a # ts) =
     (if e = ''='' \<and> q = ''?'' then
        (if a = ''AND'' then
           (case parse_preds ts of
              None \<Rightarrow> None
            | Some (cs, ob) \<Rightarrow> Some (c # cs, ob))
         else (case parse_order (a # ts) of None \<Rightarrow> None | Some ob \<Rightarrow> Some ([c], ob)))
      else None)"
| "parse_preds [c, e, q] = (if e = ''='' \<and> q = ''?'' then Some ([c], None) else None)"
| "parse_preds ts = None"

fun parse_clauses :: "string list \<Rightarrow> (string list \<times> string option) option" where
  "parse_clauses [] = Some ([], None)"
| "parse_clauses (t # ts) =
     (if t = ''WHERE'' then parse_preds ts
      else (case parse_order (t # ts) of None \<Rightarrow> None | Some ob \<Rightarrow> Some ([], ob)))"

text \<open>
  \<^verbatim>\<open>ORDER BY col DESC\<close> on a text column: larger values first, \<^verbatim>\<open>NULL\<close> (smaller
  than every value in SQLite) last. Texts compare bytewise. Rows with equal keys keep
  the order in which the joins produce them: a row is put in front of the first row
  already placed whose key is not larger, and the rows are placed from the last to the
  first.
\<close>

fun insert_desc :: "('r \<Rightarrow> string option) \<Rightarrow> 'r \<Rightarrow> 'r list \<Rightarrow> 'r list" where
  "insert_desc k x [] = [x]"
| "insert_desc k x (y # ys) = (if k y \<le> k x then x # y # ys else y # insert_desc k x ys)"

definition order_by_desc :: "('r \<Rightarrow> string option) \<Rightarrow> 'r list \<Rightarrow> 'r list" where
  "order_by_desc k rows = foldr (insert_desc k) rows []"

text \<open>
  \<^verbatim>\<open>cursor.execute(text, fields)\<close> followed by \<^verbatim>\<open>fetchall()\<close>, for a statement that
  starts with the select list and joins \<open>joins\<close>, whose rows are \<open>base\<close> and whose
  columns are \<open>columns\<close>: the text is prepared
  (a syntax error or an unknown column is an \<^verbatim>\<open>OperationalError\<close>), the values are
  bound (a wrong count is a \<^verbatim>\<open>ProgrammingError\<close>), and the rows that make every
  predicate true are returned in the order asked for.
\<close>

fun resolve :: "(string \<times> 'c) list \<Rightarrow> string list \<Rightarrow> 'c list option" where
  "resolve columns [] = Some []"
| "resolve columns (c # cs) =
     (case map_of columns c of
        None \<Rightarrow> None
      | Some f \<Rightarrow> (case resolve columns cs of None \<Rightarrow> None | Some fs \<Rightarrow> Some (f # fs)))"

definition select_tokens :: "string list \<Rightarrow> string list" where
  "select_tokens ts = takeWhile (\<lambda>t. t \<noteq> ''WHERE'' \<and> t \<noteq> ''ORDER'') ts"

definition run_query ::
  "string \<Rightarrow> (string \<times> ('r \<Rightarrow> string option)) list \<Rightarrow> 'r list \<Rightarrow> string \<Rightarrow> pyval list
     \<Rightarrow> error + 'r list" where
  "run_query joins columns base text params =
     (if select_tokens (sql_lex text) \<noteq> sql_lex joins then Inl OperationalError
      else
       (case parse_clauses (clause_tokens (sql_lex text)) of
          None \<Rightarrow> Inl OperationalError
        | Some (cols, ob) \<Rightarrow>
            (case (resolve columns cols,
                   resolve columns (case ob of None \<Rightarrow> [] | Some c \<Rightarrow> [c])) of
               (Some getters, Some keys) \<Rightarrow>
                 (if length cols \<noteq> length params then Inl ProgrammingError
                  else (case bind_params params of
                          Inl e \<Rightarrow> Inl e
                        | Inr vals \<Rightarrow>
                            (let kept = filter (\<lambda>r. list_all (\<lambda>(g, v). text_eq (g r) v)
                                                        (zip getters vals)) base
                             in Inr (case keys of [] \<Rightarrow> kept
                                     | k # _ \<Rightarrow> order_by_desc k kept))))
             | _ \<Rightarrow> Inl OperationalError)))"

text \<open>Python's \<^verbatim>\<open>sep.join(parts)\<close>.\<close>

fun join :: "string \<Rightarrow> string list \<Rightarrow> string" where
  "join sep [] = []"
| "join sep [x] = x"
| "join sep (x # y # ys) = x @ sep @ join sep (y # ys)"

text \<open>
  \<^verbatim>\<open>LEFT JOIN t ON cond\<close>: the rows of \<open>t\<close> that match, or one \<^verbatim>\<open>NULL\<close> row when none
  does. \<^verbatim>\<open>JOIN t ON cond\<close>: the rows that match.
\<close>

definition left_join :: "('b \<Rightarrow> bool) \<Rightarrow> 'b list \<Rightarrow> 'b option list" where
  "left_join on t = (case filter on t of [] \<Rightarrow> [None] | m # ms \<Rightarrow> map Some (m # ms))"

definition inner_join :: "('b \<Rightarrow> bool) \<Rightarrow> 'b list \<Rightarrow> 'b list" where
  "inner_join on t = filter on t"

definition opt_text :: "string option \<Rightarrow> sqlval" where
  "opt_text x = (case x of None \<Rightarrow> SNull | Some s \<Rightarrow> SText s)"

definition newline :: string where
  "newline = [CHR 0x0A]"

subsection \<open>Connections, transactions and output\<close>

text \<open>
  \<open>disk\<close> is the committed content of \<^verbatim>\<open>flight.db\<close>. \<open>conns\<close> holds every
  connection opened so far, in the order of opening; a connection is open until
  \<^verbatim>\<open>close_connection\<close> is called on it, and inside a transaction it carries its own
  uncommitted copy of the tables in \<open>pending\<close>. \<open>printed\<close> is what the operator has
  been shown. Progress lines that only echo the arguments are left out; every line
  that reports a condition, and every result table, is kept. Locks between
  connections are not modelled: in every run of the six operations at most one
  connection is inside a transaction.
\<close>

record conn =
  is_open :: bool
  pending :: "db option"

datatype report =
    NoScheduleId
  | ScheduleMissing int
  | NoDataAfterUpdate
  | NoPilotId
  | CriteriaIncomplete
  | NoChanges
  | FlightMissing
  | PilotAssigned pyval
  | NoDestinationCode
  | DestinationUpdated pyval
  | NoData
  | SeedConflict
  | Table "sqlval list list"

record world =
  disk :: db
  conns :: "conn list"
  printed :: "report list"

datatype outcome = Returned | Raised error

definition say :: "report \<Rightarrow> world \<Rightarrow> world" where
  "say r w = w\<lparr>printed := printed w @ [r]\<rparr>"

definition and_then :: "outcome \<times> world \<Rightarrow> (world \<Rightarrow> outcome \<times> world) \<Rightarrow> outcome \<times> world" where
  "and_then r k = (case r of (Returned, w) \<Rightarrow> k w | (Raised e, w) \<Rightarrow> (Raised e, w))"

definition attempt :: "error + 'a \<Rightarrow> ('a \<Rightarrow> error + 'b) \<Rightarrow> error + 'b" where
  "attempt r k = (case r of Inl e \<Rightarrow> Inl e | Inr x \<Rightarrow> k x)"

text \<open>\<^verbatim>\<open>open_connection\<close>: a new connection and its cursor; the handle is its index.\<close>

definition open_connection :: "world \<Rightarrow> nat \<times> world" where
  "open_connection w =
     (length (conns w), w\<lparr>conns := conns w @ [\<lparr>is_open = True, pending = None\<rparr>]\<rparr>)"

definition usable :: "nat \<Rightarrow> world \<Rightarrow> bool" where
  "usable h w = (h < length (conns w) \<and> is_open (conns w ! h))"

text \<open>
  \<^verbatim>\<open>close_connection\<close>: \<^verbatim>\<open>cursor.close()\<close>, then \<^verbatim>\<open>connection.close()\<close>. Closing a
  connection discards its uncommitted changes. The cursor of a connection that is
  already closed raises \<^verbatim>\<open>ProgrammingError\<close> (``Cannot operate on a closed
  database'') when it is closed.
\<close>

definition close_connection :: "nat \<Rightarrow> world \<Rightarrow> outcome \<times> world" where
  "close_connection h w =
     (if usable h w
      then (Returned, w\<lparr>conns := (conns w)[h := \<lparr>is_open = False, pending = None\<rparr>]\<rparr>)
      else (Raised ProgrammingError, w))"

text \<open>What a statement run on connection \<open>h\<close> reads.\<close>

definition view :: "nat \<Rightarrow> world \<Rightarrow> db" where
  "view h w = (case pending (conns w ! h) of None \<Rightarrow> disk w | Some d \<Rightarrow> d)"

definition query :: "nat \<Rightarrow> (db \<Rightarrow> error + 'a) \<Rightarrow> world \<Rightarrow> error + 'a" where
  "query h q w = (if usable h w then q (view h w) else Inl ProgrammingError)"

text \<open>\<^verbatim>\<open>cursor.execute("BEGIN")\<close>.\<close>

definition begin_transaction :: "nat \<Rightarrow> world \<Rightarrow> outcome \<times> world" where
  "begin_transaction h w =
     (if \<not> usable h w then (Raised ProgrammingError, w)
      else if pending (conns w ! h) \<noteq> None then (Raised OperationalError, w)
      else (Returned, w\<lparr>conns := (conns w)[h := (conns w ! h)\<lparr>pending := Some (disk w)\<rparr>]\<rparr>))"

text \<open>
  An \<^verbatim>\<open>UPDATE\<close> run on connection \<open>h\<close>: a statement that fails changes nothing and
  leaves the transaction open; one that succeeds changes the connection's own copy.
\<close>

definition execute_update :: "nat \<Rightarrow> (db \<Rightarrow> error + db) \<Rightarrow> world \<Rightarrow> outcome \<times> world" where
  "execute_update h stmt w =
     (if \<not> usable h w then (Raised ProgrammingError, w)
      else (case stmt (view h w) of
              Inl e \<Rightarrow> (Raised e, w)
            | Inr d \<Rightarrow> (Returned, w\<lparr>conns := (conns w)[h := (conns w ! h)\<lparr>pending := Some d\<rparr>]\<rparr>)))"

text \<open>\<^verbatim>\<open>connection.commit()\<close>.\<close>

definition commit :: "nat \<Rightarrow> world \<Rightarrow> outcome \<times> world" where
  "commit h w =
     (if \<not> usable h w then (Raised ProgrammingError, w)
      else (case pending (conns w ! h) of
              None \<Rightarrow> (Returned, w)
            | Some d \<Rightarrow>
                (Returned, w\<lparr>disk := d, conns := (conns w)[h := (conns w ! h)\<lparr>pending := None\<rparr>]\<rparr>)))"

text \<open>
  An \<^verbatim>\<open>UPDATE t SET col = ? WHERE cond\<close> on one table: every row that satisfies the
  condition is rewritten; the statement fails as a whole when a value cannot be stored.
\<close>

fun update_rows :: "('r \<Rightarrow> bool) \<Rightarrow> ('r \<Rightarrow> error + 'r) \<Rightarrow> 'r list \<Rightarrow> error + 'r list" where
  "update_rows cond set_col [] = Inr []"
| "update_rows cond set_col (r # rs) =
     attempt (if cond r then set_col r else Inr r)
       (\<lambda>r'. attempt (update_rows cond set_col rs) (\<lambda>rs'. Inr (r' # rs')))"

subsection \<open>\<^verbatim>\<open>fetch_flights\<close>\<close>

type_synonym flight_row =
  "flight \<times> schedule option \<times> destination option \<times> destination option \<times> pilot option"

definition flight_query_base :: string where
  "flight_query_base = concat
     [newline,
      ''        SELECT df.flight_number, dd1.airport_name, dd2.airport_name,'', newline,
      ''        df.scheduled_departure_time, df.scheduled_arrival_time, '', newline,
      ''        fs.departure_date, dp.pilot_ID, fs.status'', newline,
      ''        FROM d_flight df'', newline,
      ''        LEFT JOIN f_schedule fs on df.flight_ID = fs.flight_ID'', newline,
      ''        LEFT JOIN d_destination dd1 on df.departure_destination_code '', newline,
      ''        = dd1.destination_code'', newline,
      ''        LEFT JOIN d_destination dd2 on df.arrival_destination_code '', newline,
      ''        = dd2.destination_code'', newline,
      ''        LEFT JOIN d_pilot dp on fs.pilot_ID = dp.pilot_ID'', newline,
      ''        '']"

text \<open>The rows of the four left joins, one list entry per joined row.\<close>

definition flights_join :: "db \<Rightarrow> flight_row list" where
  "flights_join d =
     [(df, fs, dd1, dd2, dp).
        df \<leftarrow> d_flight d,
        fs \<leftarrow> left_join (\<lambda>s. df_flight_ID df = fs_flight_ID s) (f_schedule d),
        dd1 \<leftarrow> left_join (\<lambda>x. df_departure_destination_code df = dd_destination_code x)
                 (d_destination d),
        dd2 \<leftarrow> left_join (\<lambda>x. df_arrival_destination_code df = dd_destination_code x)
                 (d_destination d),
        dp \<leftarrow> left_join (\<lambda>p. (case fs of None \<Rightarrow> False
                                    | Some s \<Rightarrow> fs_pilot_ID s = Some (dp_pilot_ID p)))
                 (d_pilot d)]"

definition flight_columns :: "(string \<times> (flight_row \<Rightarrow> string option)) list" where
  "flight_columns =
     [(''df.flight_number'', \<lambda>(df, fs, dd1, dd2, dp). Some (df_flight_number df)),
      (''dd1.city'', \<lambda>(df, fs, dd1, dd2, dp). map_option dd_city dd1),
      (''dd2.city'', \<lambda>(df, fs, dd1, dd2, dp). map_option dd_city dd2),
      (''fs.departure_date'', \<lambda>(df, fs, dd1, dd2, dp). map_option fs_departure_date fs),
      (''fs.status'', \<lambda>(df, fs, dd1, dd2, dp). map_option fs_status fs)]"

text \<open>The select list: the tuple \<^verbatim>\<open>fetchall\<close> returns for a joined row.\<close>

definition flights_select :: "flight_row \<Rightarrow> sqlval list" where
  "flights_select = (\<lambda>(df, fs, dd1, dd2, dp).
     [SText (df_flight_number df),
      opt_text (map_option dd_airport_name dd1),
      opt_text (map_option dd_airport_name dd2),
      SText (df_scheduled_departure_time df),
      SText (df_scheduled_arrival_time df),
      opt_text (map_option fs_departure_date fs),
      opt_text (map_option dp_pilot_ID dp),
      opt_text (map_option fs_status fs)])"

definition flight_where :: "pyval \<Rightarrow> pyval \<Rightarrow> pyval \<Rightarrow> pyval \<Rightarrow> pyval \<Rightarrow> string list" where
  "flight_where flight_number departure_city arrival_city departure_date flight_status =
     (if truthy flight_number then [''df.flight_number = ?''] else []) @
     (if truthy departure_city then [''dd1.city = ?''] else []) @
     (if truthy arrival_city then [''dd2.city = ?''] else []) @
     (if truthy departure_date then [''fs.departure_date = ?''] else []) @
     (if truthy flight_status then [''fs.status = ?''] else [])"

definition flight_fields :: "pyval \<Rightarrow> pyval \<Rightarrow> pyval \<Rightarrow> pyval \<Rightarrow> pyval \<Rightarrow> pyval list" where
  "flight_fields flight_number departure_city arrival_city departure_date flight_status =
     (if truthy flight_number then [flight_number] else []) @
     (if truthy departure_city then [departure_city] else []) @
     (if truthy arrival_city then [arrival_city] else []) @
     (if truthy departure_date then [departure_date] else []) @
     (if truthy flight_status then [flight_status] else [])"

text \<open>
  The composed text. The last piece is appended as \<^verbatim>\<open>"ORDER BY fs.departure_date DESC"\<close>,
  with no blank in front of it.
\<close>

definition flight_query :: "pyval \<Rightarrow> pyval \<Rightarrow> pyval \<Rightarrow> pyval \<Rightarrow> pyval \<Rightarrow> string" where
  "flight_query flight_number departure_city arrival_city departure_date flight_status =
     (let where_criteria =
            flight_where flight_number departure_city arrival_city departure_date flight_status
      in flight_query_base
         @ (if where_criteria \<noteq> [] then '' WHERE '' @ join '' AND '' where_criteria else [])
         @ ''ORDER BY fs.departure_date DESC'')"

text \<open>\<open>result\<close> of \<^verbatim>\<open>fetch_flights\<close>: what \<^verbatim>\<open>cursor.fetchall()\<close> returns.\<close>

definition fetch_flights_result ::
  "pyval \<Rightarrow> pyval \<Rightarrow> pyval \<Rightarrow> pyval \<Rightarrow> pyval \<Rightarrow> db \<Rightarrow> error + sqlval list list" where
  "fetch_flights_result flight_number departure_city arrival_city departure_date flight_status d =
     attempt
       (run_query flight_query_base flight_columns (flights_join d)
          (flight_query flight_number departure_city arrival_city departure_date flight_status)
          (flight_fields flight_number departure_city arrival_city departure_date flight_status))
       (\<lambda>rows. Inr (map flights_select rows))"

definition fetch_flights ::
  "pyval \<Rightarrow> pyval \<Rightarrow> pyval \<Rightarrow> pyval \<Rightarrow> pyval \<Rightarrow> world \<Rightarrow> outcome \<times> world" where
  "fetch_flights flight_number departure_city arrival_city departure_date flight_status w =
     (let (connection, w1) = open_connection w in
      case query connection
             (fetch_flights_result flight_number departure_city arrival_city departure_date
                flight_status) w1 of
        Inl e \<Rightarrow> (Raised e, w1)
      | Inr result \<Rightarrow>
          close_connection connection
            (say (if result \<noteq> [] then Table result else NoData) w1))"

subsection \<open>\<^verbatim>\<open>fetch_pilots\<close>\<close>

type_synonym pilot_row = "schedule \<times> pilot \<times> flight \<times> destination \<times> destination"

definition pilot_query_base :: string where
  "pilot_query_base = concat
     [newline,
      ''    SELECT fs.schedule_ID, fs.departure_date, fs.flight_ID, fs.status, '', newline,
      ''    dp.pilot_ID, dp.first_name, dp.last_name, df.scheduled_departure_time, '', newline,
      ''    df.scheduled_arrival_time, dd1.city, dd2.city  '', newline,
      ''    FROM f_schedule fs'', newline,
      ''    JOIN d_pilot dp on fs.pilot_ID = dp.pilot_ID'', newline,
      ''    JOIN d_flight df on fs.flight_ID = df.flight_ID'', newline,
      ''    JOIN d_destination dd1 on df.departure_destination_code = dd1.destination_code'',
      newline,
      ''    JOIN d_destination dd2 on df.arrival_destination_code = dd2.destination_code '',
      newline,
      ''    '']"

definition pilots_join :: "db \<Rightarrow> pilot_row list" where
  "pilots_join d =
     [(fs, dp, df, dd1, dd2).
        fs \<leftarrow> f_schedule d,
        dp \<leftarrow> inner_join (\<lambda>p. fs_pilot_ID fs = Some (dp_pilot_ID p)) (d_pilot d),
        df \<leftarrow> inner_join (\<lambda>f. fs_flight_ID fs = df_flight_ID f) (d_flight d),
        dd1 \<leftarrow> inner_join (\<lambda>x. df_departure_destination_code df = dd_destination_code x)
                 (d_destination d),
        dd2 \<leftarrow> inner_join (\<lambda>x. df_arrival_destination_code df = dd_destination_code x)
                 (d_destination d)]"

definition pilot_columns :: "(string \<times> (pilot_row \<Rightarrow> string option)) list" where
  "pilot_columns =
     [(''dp.pilot_ID'', \<lambda>(fs, dp, df, dd1, dd2). Some (dp_pilot_ID dp)),
      (''dp.first_name'', \<lambda>(fs, dp, df, dd1, dd2). Some (dp_first_name dp)),
      (''dp.last_name'', \<lambda>(fs, dp, df, dd1, dd2). Some (dp_last_name dp))]"

definition pilots_select :: "pilot_row \<Rightarrow> sqlval list" where
  "pilots_select = (\<lambda>(fs, dp, df, dd1, dd2).
     [SInt (fs_schedule_ID fs), SText (fs_departure_date fs), SInt (fs_flight_ID fs),
      SText (fs_status fs), SText (dp_pilot_ID dp), SText (dp_first_name dp),
      SText (dp_last_name dp), SText (df_scheduled_departure_time df),
      SText (df_scheduled_arrival_time df), SText (dd_city dd1), SText (dd_city dd2)])"

definition pilot_where :: "pyval \<Rightarrow> pyval \<Rightarrow> pyval \<Rightarrow> string list" where
  "pilot_where pilot_id first_name last_name =
     (if truthy pilot_id then [''dp.pilot_ID = ?''] else []) @
     (if truthy first_name then [''dp.first_name = ?''] else []) @
     (if truthy last_name then [''dp.last_name = ?''] else [])"

definition pilot_fields :: "pyval \<Rightarrow> pyval \<Rightarrow> pyval \<Rightarrow> pyval list" where
  "pilot_fields pilot_id first_name last_name =
     (if truthy pilot_id then [pilot_id] else []) @
     (if truthy first_name then [first_name] else []) @
     (if truthy last_name then [last_name] else [])"

definition pilot_query :: "pyval \<Rightarrow> pyval \<Rightarrow> pyval \<Rightarrow> string" where
  "pilot_query pilot_id first_name last_name =
     (let where_criteria = pilot_where pilot_id first_name last_name
      in pilot_query_base
         @ (if where_criteria \<noteq> [] then '' WHERE '' @ join '' AND '' where_criteria else []))"

definition fetch_pilots_result ::
  "pyval \<Rightarrow> pyval \<Rightarrow> pyval \<Rightarrow> db \<Rightarrow> error + sqlval list list" where
  "fetch_pilots_result pilot_id first_name last_name d =
     attempt
       (run_query pilot_query_base pilot_columns (pilots_join d)
          (pilot_query pilot_id first_name last_name)
          (pilot_fields pilot_id first_name last_name))
       (\<lambda>rows. Inr (map pilots_select rows))"

definition fetch_pilots :: "pyval \<Rightarrow> pyval \<Rightarrow> pyval \<Rightarrow> world \<Rightarrow> outcome \<times> world" where
  "fetch_pilots pilot_id first_name last_name w =
     (let (connection, w1) = open_connection w in
      case query connection (fetch_pilots_result pilot_id first_name last_name) w1 of
        Inl e \<Rightarrow> (Raised e, w1)
      | Inr result \<Rightarrow>
          close_connection connection
            (say (if result \<noteq> [] then Table result else NoData) w1))"

subsection \<open>\<^verbatim>\<open>fetch_destinations\<close>\<close>

definition destination_query_base :: string where
  "destination_query_base = concat
     [newline,
      ''    SELECT destination_code, airport_name, city, country  '', newline,
      ''    FROM d_destination'', newline,
      ''    '']"

definition destination_columns :: "(string \<times> (destination \<Rightarrow> string option)) list" where
  "destination_columns =
     [(''destination_code'', \<lambda>dd. Some (dd_destination_code dd)),
      (''airport_name'', \<lambda>dd. Some (dd_airport_name dd)),
      (''city'', \<lambda>dd. Some (dd_city dd)),
      (''country'', \<lambda>dd. Some (dd_country dd))]"

definition destinations_select :: "destination \<Rightarrow> sqlval list" where
  "destinations_select dd =
     [SText (dd_destination_code dd), SText (dd_airport_name dd), SText (dd_city dd),
      SText (dd_country dd)]"

definition destination_where :: "pyval \<Rightarrow> pyval \<Rightarrow> pyval \<Rightarrow> pyval \<Rightarrow> string list" where
  "destination_where destination_code airport_name city country =
     (if truthy destination_code then [''destination_code = ?''] else []) @
     (if truthy airport_name then [''airport_name = ?''] else []) @
     (if truthy city then [''city = ?''] else []) @
     (if truthy country then [''country = ?''] else [])"

definition destination_fields :: "pyval \<Rightarrow> pyval \<Rightarrow> pyval \<Rightarrow> pyval \<Rightarrow> pyval list" where
  "destination_fields destination_code airport_name city country =
     (if truthy destination_code then [destination_code] else []) @
     (if truthy airport_name then [airport_name] else []) @
     (if truthy city then [city] else []) @
     (if truthy country then [country] else [])"

definition destination_query :: "pyval \<Rightarrow> pyval \<Rightarrow> pyval \<Rightarrow> pyval \<Rightarrow> string" where
  "destination_query destination_code airport_name city country =
     (let where_criteria = destination_where destination_code airport_name city country
      in destination_query_base
         @ (if where_criteria \<noteq> [] then '' WHERE '' @ join '' AND '' where_criteria else []))"

definition fetch_destinations_result ::
  "pyval \<Rightarrow> pyval \<Rightarrow> pyval \<Rightarrow> pyval \<Rightarrow> db \<Rightarrow> error + sqlval list list" where
  "fetch_destinations_result destination_code airport_name city country d =
     attempt
       (run_query destination_query_base destination_columns (d_destination d)
          (destination_query destination_code airport_name city country)
          (destination_fields destination_code airport_name city country))
       (\<lambda>rows. Inr (map destinations_select rows))"

text \<open>\<^verbatim>\<open>fetch_destinations\<close> prints the table also when it is empty.\<close>

definition fetch_destinations ::
  "pyval \<Rightarrow> pyval \<Rightarrow> pyval \<Rightarrow> pyval \<Rightarrow> world \<Rightarrow> outcome \<times> world" where
  "fetch_destinations destination_code airport_name city country w =
     (let (connection, w1) = open_connection w in
      case query connection
             (fetch_destinations_result destination_code airport_name city country) w1 of
        Inl e \<Rightarrow> (Raised e, w1)
      | Inr result \<Rightarrow> close_connection connection (say (Table result) w1))"

subsection \<open>\<^verbatim>\<open>modify_schedule\<close>\<close>

definition schedule_select :: "schedule \<Rightarrow> sqlval list" where
  "schedule_select fs =
     [SInt (fs_schedule_ID fs), SText (fs_departure_date fs),
      opt_text (fs_actual_departure_time fs), opt_text (fs_actual_arrival_time fs),
      SInt (fs_flight_ID fs), opt_text (fs_pilot_ID fs), SText (fs_status fs)]"

text \<open>
  \<^verbatim>\<open>schedule_lookup\<close> run with \<^verbatim>\<open>(schedule_id,)\<close>. The identifier is an integer, as
  at every call in the repository.
\<close>

definition schedule_lookup :: "int \<Rightarrow> db \<Rightarrow> error + sqlval list list" where
  "schedule_lookup schedule_id d =
     attempt (bind_param (PInt schedule_id))
       (\<lambda>b. Inr (map schedule_select
                   (filter (\<lambda>fs. fs_schedule_ID fs = schedule_id) (f_schedule d))))"

text \<open>The three \<^verbatim>\<open>schedule_modification\<close> statements.\<close>

definition set_actual_departure_time :: "pyval \<Rightarrow> int \<Rightarrow> db \<Rightarrow> error + db" where
  "set_actual_departure_time new_departure_time schedule_id d =
     attempt (bind_param new_departure_time)
       (\<lambda>v. attempt (bind_param (PInt schedule_id))
       (\<lambda>i. attempt
          (update_rows (\<lambda>fs. fs_schedule_ID fs = schedule_id)
             (\<lambda>fs. attempt (store_text v) (\<lambda>t. Inr (fs\<lparr>fs_actual_departure_time := t\<rparr>)))
             (f_schedule d))
          (\<lambda>rows. Inr (d\<lparr>f_schedule := rows\<rparr>))))"

definition set_actual_arrival_time :: "pyval \<Rightarrow> int \<Rightarrow> db \<Rightarrow> error + db" where
  "set_actual_arrival_time new_arrival_time schedule_id d =
     attempt (bind_param new_arrival_time)
       (\<lambda>v. attempt (bind_param (PInt schedule_id))
       (\<lambda>i. attempt
          (update_rows (\<lambda>fs. fs_schedule_ID fs = schedule_id)
             (\<lambda>fs. attempt (store_text v) (\<lambda>t. Inr (fs\<lparr>fs_actual_arrival_time := t\<rparr>)))
             (f_schedule d))
          (\<lambda>rows. Inr (d\<lparr>f_schedule := rows\<rparr>))))"

definition set_status :: "pyval \<Rightarrow> int \<Rightarrow> db \<Rightarrow> error + db" where
  "set_status new_status schedule_id d =
     attempt (bind_param new_status)
       (\<lambda>v. attempt (bind_param (PInt schedule_id))
       (\<lambda>i. attempt
          (update_rows (\<lambda>fs. fs_schedule_ID fs = schedule_id)
             (\<lambda>fs. attempt (store_text_not_null v) (\<lambda>t. Inr (fs\<lparr>fs_status := t\<rparr>)))
             (f_schedule d))
          (\<lambda>rows. Inr (d\<lparr>f_schedule := rows\<rparr>))))"

definition modify_schedule ::
  "int option \<Rightarrow> pyval \<Rightarrow> pyval \<Rightarrow> pyval \<Rightarrow> world \<Rightarrow> outcome \<times> world" where
  "modify_schedule schedule_id new_departure_time new_arrival_time new_status w =
     (case schedule_id of
        None \<Rightarrow> (Returned, say NoScheduleId w)
      | Some sid \<Rightarrow>
          (let (connection, w1) = open_connection w in
           case query connection (schedule_lookup sid) w1 of
             Inl e \<Rightarrow> (Raised e, w1)
           | Inr [] \<Rightarrow> (Returned, say (ScheduleMissing sid) w1)
           | Inr (schedule_result # _) \<Rightarrow>
               and_then (begin_transaction connection (say (Table [schedule_result]) w1))
               (\<lambda>w2. and_then
                  (if truthy new_departure_time
                   then execute_update connection
                          (set_actual_departure_time new_departure_time sid) w2
                   else (Returned, w2))
               (\<lambda>w3. and_then
                  (if truthy new_arrival_time
                   then execute_update connection
                          (set_actual_arrival_time new_arrival_time sid) w3
                   else (Returned, w3))
               (\<lambda>w4. and_then
                  (if truthy new_status
                   then execute_update connection (set_status new_status sid) w4
                   else (Returned, w4))
               (\<lambda>w5. and_then (commit connection w5)
               (\<lambda>w6. case query connection (schedule_lookup sid) w6 of
                        Inl e \<Rightarrow> (Raised e, w6)
                      | Inr [] \<Rightarrow> close_connection connection (say NoDataAfterUpdate w6)
                      | Inr (updated_result # _) \<Rightarrow>
                          close_connection connection
                            (say (Table [updated_result]) w6))))))))"

subsection \<open>\<^verbatim>\<open>assign_pilot\<close>\<close>

text \<open>
  \<^verbatim>\<open>confirmation_decision = input(...).lower()\<close>. A line is the list of its bytes.
  \<open>lower\<close> maps the ASCII capitals and keeps every other byte. \<^verbatim>\<open>str.lower\<close> also
  maps letters outside ASCII, but none of them to a letter of \<^verbatim>\<open>yes\<close> or \<^verbatim>\<open>no\<close>
  (the only one it maps into ASCII is the Kelvin sign, to \<^verbatim>\<open>k\<close>), and the lowered
  line is only ever compared with these two words: \<open>lower line = ''yes''\<close> and
  \<open>lower line = ''no''\<close> hold exactly when the comparisons of the code do.
\<close>

definition lower_char :: "char \<Rightarrow> char" where
  "lower_char c =
     (case map_of (zip ''ABCDEFGHIJKLMNOPQRSTUVWXYZ'' ''abcdefghijklmnopqrstuvwxyz'') c of
        None \<Rightarrow> c | Some l \<Rightarrow> l)"

definition lower :: "string \<Rightarrow> string" where
  "lower s = map lower_char s"

text \<open>
  \<^verbatim>\<open>flight_id_lookup\<close> run with \<^verbatim>\<open>(flight_number, departure_city, arrival_city)\<close>,
  in the order the rows are fetched.
\<close>

definition flight_id_lookup :: "pyval \<Rightarrow> pyval \<Rightarrow> pyval \<Rightarrow> db \<Rightarrow> error + int list" where
  "flight_id_lookup flight_number departure_city arrival_city d =
     attempt (bind_param flight_number)
       (\<lambda>number. attempt (bind_param departure_city)
       (\<lambda>departure. attempt (bind_param arrival_city)
       (\<lambda>arrival. Inr
          [df_flight_ID df.
             df \<leftarrow> d_flight d,
             dd1 \<leftarrow> left_join (\<lambda>x. df_departure_destination_code df = dd_destination_code x)
                      (d_destination d),
             dd2 \<leftarrow> left_join (\<lambda>x. df_arrival_destination_code df = dd_destination_code x)
                      (d_destination d),
             text_eq (Some (df_flight_number df)) number
               \<and> text_eq (map_option dd_city dd1) departure
               \<and> text_eq (map_option dd_city dd2) arrival])))"

text \<open>\<^verbatim>\<open>pilot_assignment\<close> run with \<^verbatim>\<open>(pilot_id, flight_id, departure_date)\<close>.\<close>

definition pilot_assignment :: "pyval \<Rightarrow> int \<Rightarrow> pyval \<Rightarrow> db \<Rightarrow> error + db" where
  "pilot_assignment pilot_id flight_id departure_date d =
     attempt (bind_param pilot_id)
       (\<lambda>v. attempt (bind_param (PInt flight_id))
       (\<lambda>i. attempt (bind_param departure_date)
       (\<lambda>date. attempt
          (update_rows
             (\<lambda>fs. fs_flight_ID fs = flight_id \<and> text_eq (Some (fs_departure_date fs)) date)
             (\<lambda>fs. attempt (store_text v) (\<lambda>t. Inr (fs\<lparr>fs_pilot_ID := t\<rparr>)))
             (f_schedule d))
          (\<lambda>rows. Inr (d\<lparr>f_schedule := rows\<rparr>)))))"

text \<open>
  One pass through the body of the \<^verbatim>\<open>while needs_to_confirm\<close> loop, for the line the
  operator typed. \<open>None\<close>: the loop goes round again; \<open>Some outcome\<close>: the function
  is left. \<open>connection\<close> is the connection opened at the start of \<^verbatim>\<open>assign_pilot\<close>;
  the affirmative branch opens a second one under the same name.
\<close>

definition confirm_step ::
  "pyval \<Rightarrow> pyval \<Rightarrow> pyval \<Rightarrow> pyval \<Rightarrow> pyval \<Rightarrow> nat \<Rightarrow> string \<Rightarrow> world
     \<Rightarrow> outcome option \<times> world" where
  "confirm_step pilot_id flight_number departure_date departure_city arrival_city connection
       line w =
     (let confirmation_decision = lower line in
      if confirmation_decision = ''no'' then (Some Returned, say NoChanges w)
      else if confirmation_decision = ''yes'' then
        (let (connection2, w1) = open_connection w in
         case query connection2 (flight_id_lookup flight_number departure_city arrival_city) w1 of
           Inl e \<Rightarrow> (Some (Raised e), w1)
         | Inr [] \<Rightarrow> (Some Returned, say FlightMissing w1)
         | Inr (flight_id # _) \<Rightarrow>
             (case
                and_then (begin_transaction connection2 w1)
                (\<lambda>w2. and_then
                   (execute_update connection2
                      (pilot_assignment pilot_id flight_id departure_date) w2)
                (\<lambda>w3. and_then (commit connection2 w3)
                (\<lambda>w4. and_then (fetch_pilots pilot_id PNone PNone (say (PilotAssigned pilot_id) w4))
                (\<lambda>w5. and_then
                   (fetch_flights flight_number departure_city arrival_city departure_date
                      PNone w5)
                (\<lambda>w6. close_connection connection2 w6)))))
              of (out, w') \<Rightarrow> (Some out, w')))
      else
        (case
           and_then (fetch_pilots pilot_id PNone PNone w)
           (\<lambda>w1. and_then
              (fetch_flights flight_number departure_city arrival_city departure_date PNone w1)
           (\<lambda>w2. close_connection connection w2))
         of (Returned, w') \<Rightarrow> (None, w')
          | (Raised e, w') \<Rightarrow> (Some (Raised e), w')))"

text \<open>
  The loop, over the lines the operator types. When the input is exhausted
  \<^verbatim>\<open>input()\<close> raises \<^verbatim>\<open>EOFError\<close>.
\<close>

fun confirm_loop ::
  "pyval \<Rightarrow> pyval \<Rightarrow> pyval \<Rightarrow> pyval \<Rightarrow> pyval \<Rightarrow> nat \<Rightarrow> string list \<Rightarrow> world
     \<Rightarrow> outcome \<times> world" where
  "confirm_loop pilot_id flight_number departure_date departure_city arrival_city connection
       [] w = (Raised EOFError, w)"
| "confirm_loop pilot_id flight_number departure_date departure_city arrival_city connection
       (line # lines) w =
     (case confirm_step pilot_id flight_number departure_date departure_city arrival_city
             connection line w of
        (Some out, w') \<Rightarrow> (out, w')
      | (None, w') \<Rightarrow>
          confirm_loop pilot_id flight_number departure_date departure_city arrival_city
            connection lines w')"

definition assign_pilot ::
  "pyval \<Rightarrow> pyval \<Rightarrow> pyval \<Rightarrow> pyval \<Rightarrow> pyval \<Rightarrow> string list \<Rightarrow> world \<Rightarrow> outcome \<times> world" where
  "assign_pilot pilot_id flight_number departure_date departure_city arrival_city lines w =
     (let (connection, w1) = open_connection w in
      if pilot_id = PNone then close_connection connection (say NoPilotId w1)
      else
        and_then (fetch_pilots pilot_id PNone PNone w1)
        (\<lambda>w2. if \<not> (truthy flight_number \<and> truthy departure_date \<and> truthy departure_city
                      \<and> truthy arrival_city)
               then (Returned, say CriteriaIncomplete w2)
               else
                 and_then
                   (fetch_flights flight_number departure_city arrival_city departure_date
                      PNone w2)
                 (\<lambda>w3. confirm_loop pilot_id flight_number departure_date departure_city
                          arrival_city connection lines w3)))"

subsection \<open>\<^verbatim>\<open>modify_destination\<close>\<close>

text \<open>
  \<^verbatim>\<open>destination_code.upper()\<close>. On a \<^verbatim>\<open>str\<close> this is the case mapping of Unicode
  (it sends the long s, U+017F, to \<^verbatim>\<open>S\<close>, and the sharp s to \<^verbatim>\<open>SS\<close>), a
  table of the interpreter and not of this repository: it is the parameter
  \<open>str_upper\<close>, a function on the bytes of the text, and nothing is assumed about it.
  \<^verbatim>\<open>bytes.upper\<close> is \<open>ascii_upper\<close>: it maps the ASCII letters and keeps every other
  byte (so does \<^verbatim>\<open>str.upper\<close> on a text of ASCII characters). An \<^verbatim>\<open>int\<close> has no
  such method.
\<close>

definition ascii_upper_char :: "char \<Rightarrow> char" where
  "ascii_upper_char c =
     (case map_of (zip ''abcdefghijklmnopqrstuvwxyz'' ''ABCDEFGHIJKLMNOPQRSTUVWXYZ'') c of
        None \<Rightarrow> c | Some u \<Rightarrow> u)"

definition ascii_upper :: "string \<Rightarrow> string" where
  "ascii_upper s = map ascii_upper_char s"

fun upper_py :: "(string \<Rightarrow> string) \<Rightarrow> pyval \<Rightarrow> error + pyval" where
  "upper_py str_upper (PStr s) = Inr (PStr (str_upper s))"
| "upper_py str_upper (PBytes b) = Inr (PBytes (ascii_upper b))"
| "upper_py str_upper (PInt i) = Inl AttributeError"
| "upper_py str_upper PNone = Inl AttributeError"

definition set_airport_name :: "pyval \<Rightarrow> pyval \<Rightarrow> db \<Rightarrow> error + db" where
  "set_airport_name airport_name destination_code d =
     attempt (bind_param airport_name)
       (\<lambda>v. attempt (bind_param destination_code)
       (\<lambda>code. attempt
          (update_rows (\<lambda>dd. text_eq (Some (dd_destination_code dd)) code)
             (\<lambda>dd. attempt (store_text_not_null v) (\<lambda>t. Inr (dd\<lparr>dd_airport_name := t\<rparr>)))
             (d_destination d))
          (\<lambda>rows. Inr (d\<lparr>d_destination := rows\<rparr>))))"

definition set_city :: "pyval \<Rightarrow> pyval \<Rightarrow> db \<Rightarrow> error + db" where
  "set_city city destination_code d =
     attempt (bind_param city)
       (\<lambda>v. attempt (bind_param destination_code)
       (\<lambda>code. attempt
          (update_rows (\<lambda>dd. text_eq (Some (dd_destination_code dd)) code)
             (\<lambda>dd. attempt (store_text_not_null v) (\<lambda>t. Inr (dd\<lparr>dd_city := t\<rparr>)))
             (d_destination d))
          (\<lambda>rows. Inr (d\<lparr>d_destination := rows\<rparr>))))"

definition set_country :: "pyval \<Rightarrow> pyval \<Rightarrow> db \<Rightarrow> error + db" where
  "set_country country destination_code d =
     attempt (bind_param country)
       (\<lambda>v. attempt (bind_param destination_code)
       (\<lambda>code. attempt
          (update_rows (\<lambda>dd. text_eq (Some (dd_destination_code dd)) code)
             (\<lambda>dd. attempt (store_text_not_null v) (\<lambda>t. Inr (dd\<lparr>dd_country := t\<rparr>)))
             (d_destination d))
          (\<lambda>rows. Inr (d\<lparr>d_destination := rows\<rparr>))))"

text \<open>
  The \<^verbatim>\<open>try\<close> block catches \<^verbatim>\<open>ValueError\<close> only; none of the errors of the engine
  is one, so each of them leaves the function.
\<close>

definition modify_destination ::
  "(string \<Rightarrow> string) \<Rightarrow> pyval \<Rightarrow> pyval \<Rightarrow> pyval \<Rightarrow> pyval \<Rightarrow> world
     \<Rightarrow> outcome \<times> world" where
  "modify_destination str_upper destination_code airport_name city country w =
     (if destination_code = PNone then (Returned, say NoDestinationCode w)
      else
        (let (connection, w1) = open_connection w in
         case upper_py str_upper destination_code of
           Inl e \<Rightarrow> (Raised e, w1)
         | Inr code \<Rightarrow>
             and_then (fetch_destinations code PNone PNone PNone w1)
             (\<lambda>w2. and_then (begin_transaction connection w2)
             (\<lambda>w3. and_then
                (if truthy airport_name
                 then execute_update connection (set_airport_name airport_name code) w3
                 else (Returned, w3))
             (\<lambda>w4. and_then
                (if truthy city then execute_update connection (set_city city code) w4
                 else (Returned, w4))
             (\<lambda>w5. and_then
                (if truthy country then execute_update connection (set_country country code) w5
                 else (Returned, w5))
             (\<lambda>w6. and_then (commit connection w6)
             (\<lambda>w7. and_then
                (fetch_destinations code PNone PNone PNone (say (DestinationUpdated code) w7))
             (\<lambda>w8. close_connection connection w8)))))))))"

subsection \<open>\<^verbatim>\<open>load_sample_data\<close>\<close>

text \<open>
  \<^verbatim>\<open>executemany\<close> on an \<^verbatim>\<open>INSERT\<close>, on the autocommit connection of
  \<^verbatim>\<open>airline_database.py\<close>: rows are inserted one by one up to the first whose
  primary key is already in the table; the \<^verbatim>\<open>IntegrityError\<close> that row raises is
  caught and reported, and the rows before it stay. Foreign keys are not checked
  (\<^verbatim>\<open>PRAGMA foreign_keys\<close> is set on the connection of \<^verbatim>\<open>create_database_tables\<close>
  only).
\<close>

fun executemany_insert ::
  "('r \<Rightarrow> 'k) \<Rightarrow> ('r \<Rightarrow> 'r list \<Rightarrow> 'r list) \<Rightarrow> 'r list \<Rightarrow> 'r list \<Rightarrow> bool \<times> 'r list" where
  "executemany_insert key place [] table = (True, table)"
| "executemany_insert key place (r # rs) table =
     (if key r \<in> key ` set table then (False, table)
      else executemany_insert key place rs (place r table))"

text \<open>
  Where a new row goes in the order of the table scan: by its integer primary key in
  \<^verbatim>\<open>d_flight\<close> and \<^verbatim>\<open>f_schedule\<close>, at the end in the tables with a text key.
\<close>

definition at_end :: "'r \<Rightarrow> 'r list \<Rightarrow> 'r list" where
  "at_end r table = table @ [r]"

definition by_rowid :: "('r \<Rightarrow> int) \<Rightarrow> 'r \<Rightarrow> 'r list \<Rightarrow> 'r list" where
  "by_rowid key r table = insort_key key r table"

definition pilots :: "(string \<times> string \<times> string \<times> string \<times> string \<times> int) list" where
  "pilots =
     [(''P0010001'', ''Bhaagyashree'', ''Patil'', ''ATPL8954'', ''2026-03-31'', 1),
      (''P0010002'', ''Jo'', ''Hyde'', ''ATPL5235'', ''2027-01-26'', 1),
      (''P0010003'', ''Christina'', ''Keating'', ''ATPL8648'', ''2025-09-03'', 0),
      (''P0010004'', ''Zach'', ''Lyons'', ''CPL85695'', ''2026-02-28'', 1),
      (''P0010005'', ''Raghubir'', ''Singh'', ''CPL64585'', ''2025-10-15'', 0),
      (''P0010006'', ''Matthew'', ''Albertyn'', ''CPL89563'', ''2026-08-22'', 1),
      (''P0010007'', ''James'', ''Davenport'', ''CPL85685'', ''2025-12-17'', 1),
      (''P0010008'', ''Paola'', ''Bruscoli'', ''ATPL5684'', ''2026-11-01'', 1),
      (''P0010009'', ''Ben'', ''Ralph'', ''CPL58695'', ''2026-05-08'', 0),
      (''P0010010'', ''Neil'', ''Langmead'', ''ATPL2135'', ''2025-06-30'', 1)]"

definition destinations :: "(string \<times> string \<times> string \<times> string) list" where
  "destinations =
     [(''DUB'', ''Dublin International'', ''Dublin'', ''Ireland''),
      (''EMA'', ''East Midlands'', ''Nottingham'', ''England''),
      (''BHX'', ''Birmingham Airport'', ''Birmingham'', ''England''),
      (''NWI'', ''Norwich International'', ''Norwich'', ''England''),
      (''BRS'', ''Bristol Airport'', ''Bristol'', ''England''),
      (''EXE'', ''Exeter Airport'', ''Exeter'', ''England''),
      (''SOU'', ''Southampton Airport'', ''Southampton'', ''England''),
      (''GCI'', ''Guernsey Airport'', ''Guernsey'', ''Channel Islands''),
      (''JER'', ''Jersey Airport'', ''Jersey'', ''Channel Islands''),
      (''NCL'', ''Newcastle International'', ''Newcastle'', ''England''),
      (''CDG'', ''Charles de Gaulle'', ''Paris'', ''France''),
      (''BIO'', ''Bilbao Airport'', ''Bilbao'', ''Spain''),
      (''MUC'', ''Munich International'', ''Munich'', ''Germany''),
      (''VRN'', ''Verona Villafranca Airport'', ''Verona'', ''Italy''),
      (''PMI'', ''Palma de Mallorca Airport'', ''Palma de Mallorca'', ''Spain'')]"

definition flights :: "(int \<times> string \<times> string \<times> string \<times> string \<times> string) list" where
  "flights =
     [(1, ''SI2206'', ''GCI'', ''JER'', ''08:30:00'', ''08:50:00''),
      (2, ''SI3350'', ''JER'', ''SOU'', ''07:15:00'', ''08:05:00''),
      (3, ''SI3351'', ''SOU'', ''JER'', ''08:35:00'', ''09:25:00''),
      (4, ''SI5580'', ''JER'', ''DUB'', ''10:35:00'', ''12:20:00''),
      (5, ''SI2206'', ''JER'', ''EXE'', ''09:20:00'', ''10:05:00''),
      (6, ''SI2207'', ''EXE'', ''JER'', ''10:45:00'', ''11:30:00''),
      (7, ''SI2203'', ''EXE'', ''JER'', ''08:35:00'', ''09:20:00''),
      (8, ''SI2202'', ''JER'', ''EXE'', ''07:20:00'', ''08:05:00''),
      (9, ''SI5552'', ''GCI'', ''JER'', ''12:45:00'', ''13:05:00''),
      (10, ''SI5581'', ''DUB'', ''JER'', ''13:00:00'', ''14:45:00''),
      (11, ''SI3312'', ''GCI'', ''SOU'', ''10:00:00'', ''10:45:00''),
      (12, ''SI3328'', ''GCI'', ''SOU'', ''13:50:00'', ''14:35:00''),
      (13, ''SI3342'', ''GCI'', ''SOU'', ''18:20:00'', ''19:05:00''),
      (14, ''SI3329'', ''SOU'', ''GCI'', ''15:05:00'', ''15:50:00''),
      (15, ''SI3313'', ''SOU'', ''GCI'', ''11:15:00'', ''12:00:00'')]"

definition schedule ::
  "(int \<times> string \<times> string option \<times> string option \<times> int \<times> string option \<times> string) list" where
  "schedule =
     [(1, ''2025-04-21'', None, None, 2, Some ''P0010001'', ''scheduled''),
      (2, ''2025-04-21'', None, None, 3, Some ''P0010001'', ''scheduled''),
      (3, ''2025-04-21'', None, None, 5, Some ''P0010002'', ''scheduled''),
      (4, ''2025-04-21'', None, None, 6, Some ''P0010002'', ''scheduled''),
      (5, ''2025-04-06'', None, None, 7, Some ''P0010002'', ''landed''),
      (6, ''2025-04-06'', None, None, 8, Some ''P0010002'', ''landed''),
      (7, ''2025-04-07'', None, None, 4, Some ''P0010003'', ''landed''),
      (8, ''2025-04-07'', None, None, 10, Some ''P0010003'', ''landed''),
      (9, ''2025-04-08'', None, None, 9, Some ''P0010004'', ''landed''),
      (10, ''2025-04-09'', None, None, 1, None, ''cancelled''),
      (11, ''2025-04-29'', None, None, 2, None, ''scheduled'')]"

definition pilot_of :: "string \<times> string \<times> string \<times> string \<times> string \<times> int \<Rightarrow> pilot" where
  "pilot_of = (\<lambda>(a, b, c, d, e, f).
     \<lparr>dp_pilot_ID = a, dp_first_name = b, dp_last_name = c, dp_licence_number = d,
      dp_licence_expiry = e, dp_night_flag = f\<rparr>)"

definition destination_of :: "string \<times> string \<times> string \<times> string \<Rightarrow> destination" where
  "destination_of = (\<lambda>(a, b, c, d).
     \<lparr>dd_destination_code = a, dd_airport_name = b, dd_city = c, dd_country = d\<rparr>)"

definition flight_of :: "int \<times> string \<times> string \<times> string \<times> string \<times> string \<Rightarrow> flight" where
  "flight_of = (\<lambda>(a, b, c, d, e, f).
     \<lparr>df_flight_ID = a, df_flight_number = b, df_departure_destination_code = c,
      df_arrival_destination_code = d, df_scheduled_departure_time = e,
      df_scheduled_arrival_time = f\<rparr>)"

definition schedule_of ::
  "int \<times> string \<times> string option \<times> string option \<times> int \<times> string option \<times> string \<Rightarrow> schedule" where
  "schedule_of = (\<lambda>(a, b, c, d, e, f, g).
     \<lparr>fs_schedule_ID = a, fs_departure_date = b, fs_actual_departure_time = c,
      fs_actual_arrival_time = d, fs_flight_ID = e, fs_pilot_ID = f, fs_status = g\<rparr>)"

text \<open>
  The four inserts, in the order of the source, on the tables \<open>d\<close>; the flags tell
  which of them ran without an \<^verbatim>\<open>IntegrityError\<close>.
\<close>

definition seed :: "db \<Rightarrow> bool list \<times> db" where
  "seed d =
     (let (ok1, t1) = executemany_insert dp_pilot_ID at_end (map pilot_of pilots) (d_pilot d);
          (ok2, t2) = executemany_insert dd_destination_code at_end (map destination_of destinations)
                        (d_destination d);
          (ok3, t3) = executemany_insert df_flight_ID (by_rowid df_flight_ID) (map flight_of flights) (d_flight d);
          (ok4, t4) = executemany_insert fs_schedule_ID (by_rowid fs_schedule_ID)
                        (map schedule_of schedule)
                        (f_schedule d)
      in ([ok1, ok2, ok3, ok4],
          \<lparr>d_pilot = t1, d_flight = t3, d_destination = t2, f_schedule = t4\<rparr>))"

definition load_sample_data :: "world \<Rightarrow> outcome \<times> world" where
  "load_sample_data w =
     (let (connection, w1) = open_connection w;
          (oks, d) = seed (disk w1);
          w2 = w1\<lparr>disk := d, printed := printed w1 @ map (\<lambda>ok. SeedConflict) (filter Not oks)\<rparr>
      in close_connection connection w2)"

text \<open>A database freshly created and seeded, with nothing opened or printed yet.\<close>

definition sample_db :: db where
  "sample_db = snd (seed empty_db)"

definition fresh :: "db \<Rightarrow> world" where
  "fresh d = \<lparr>disk = d, conns = [], printed = []\<rparr>"

section \<open>Notions used in the statements\<close>

subsection \<open>Values that reach the engine\<close>

text \<open>
  \<open>bound v\<close> is the value a placeholder takes when \<open>v\<close> is bound to it, and
  \<open>bindable v\<close> says that \<open>v\<close> can be bound: every value can, except an \<^verbatim>\<open>int\<close>
  outside the signed 64-bit range. \<open>matches col v\<close> says that the equality predicate
  on the text column \<open>col\<close> holds for the argument \<open>v\<close>: a \<^verbatim>\<open>str\<close> has to be the
  column's text, an \<^verbatim>\<open>int\<close> its decimal text, and nothing equals \<^verbatim>\<open>NULL\<close> or a
  \<^verbatim>\<open>bytes\<close> value. \<open>storable v\<close> says that \<open>v\<close> can be
  bound and then stored in a text column, and \<open>text_of v\<close> is the text stored.
\<close>

fun bound :: "pyval \<Rightarrow> sqlval" where
  "bound PNone = SNull"
| "bound (PStr s) = SText s"
| "bound (PInt i) = SInt i"
| "bound (PBytes b) = SBlob b"

definition bindable :: "pyval \<Rightarrow> bool" where
  "bindable v = (case v of PInt i \<Rightarrow> - (2 ^ 63) \<le> i \<and> i < 2 ^ 63 | _ \<Rightarrow> True)"

definition matches :: "string option \<Rightarrow> pyval \<Rightarrow> bool" where
  "matches col v =
     (case col of
        None \<Rightarrow> False
      | Some s \<Rightarrow>
          (case v of
             PStr t \<Rightarrow> s = t
           | PInt i \<Rightarrow> - (2 ^ 63) \<le> i \<and> i < 2 ^ 63 \<and> s = text_of_int i
           | _ \<Rightarrow> False))"

fun text_of :: "pyval \<Rightarrow> string" where
  "text_of (PStr s) = s"
| "text_of (PInt i) = text_of_int i"
| "text_of (PBytes b) = []"
| "text_of PNone = []"

fun storable :: "pyval \<Rightarrow> bool" where
  "storable (PStr s) = True"
| "storable (PInt i) = (- (2 ^ 63) \<le> i \<and> i < 2 ^ 63)"
| "storable (PBytes b) = False"
| "storable PNone = False"

definition in_int64 :: "int \<Rightarrow> bool" where
  "in_int64 i = (- (2 ^ 63) \<le> i \<and> i < 2 ^ 63)"

subsection \<open>The conjunction of the supplied predicates\<close>

text \<open>
  For each \<^verbatim>\<open>fetch_\<close> function, the predicate a row of the base join has to satisfy:
  one equality for every argument the function takes as supplied, that is, for every
  argument that passes Python's truth test.
\<close>

definition flight_filter :: "pyval \<Rightarrow> pyval \<Rightarrow> pyval \<Rightarrow> pyval \<Rightarrow> pyval \<Rightarrow> flight_row \<Rightarrow> bool" where
  "flight_filter flight_number departure_city arrival_city departure_date flight_status =
     (\<lambda>(df, fs, dd1, dd2, dp).
        (truthy flight_number \<longrightarrow> matches (Some (df_flight_number df)) flight_number)
      \<and> (truthy departure_city \<longrightarrow> matches (map_option dd_city dd1) departure_city)
      \<and> (truthy arrival_city \<longrightarrow> matches (map_option dd_city dd2) arrival_city)
      \<and> (truthy departure_date \<longrightarrow> matches (map_option fs_departure_date fs) departure_date)
      \<and> (truthy flight_status \<longrightarrow> matches (map_option fs_status fs) flight_status))"

definition pilot_filter :: "pyval \<Rightarrow> pyval \<Rightarrow> pyval \<Rightarrow> pilot_row \<Rightarrow> bool" where
  "pilot_filter pilot_id first_name last_name =
     (\<lambda>(fs, dp, df, dd1, dd2).
        (truthy pilot_id \<longrightarrow> matches (Some (dp_pilot_ID dp)) pilot_id)
      \<and> (truthy first_name \<longrightarrow> matches (Some (dp_first_name dp)) first_name)
      \<and> (truthy last_name \<longrightarrow> matches (Some (dp_last_name dp)) last_name))"


text \<open>
  The departure date of a joined row (the key of the \<^verbatim>\<open>ORDER BY\<close>), and the departure
  date a fetched row shows in its sixth column; \<open>None\<close> stands for \<^verbatim>\<open>NULL\<close>.
\<close>

definition flight_date :: "flight_row \<Rightarrow> string option" where
  "flight_date = (\<lambda>(df, fs, dd1, dd2, dp). map_option fs_departure_date fs)"


text \<open>
  The columns named in the \<^verbatim>\<open>WHERE\<close> clause of each composed text, and the functions
  that read them from a joined row.
\<close>

definition flight_cols :: "pyval \<Rightarrow> pyval \<Rightarrow> pyval \<Rightarrow> pyval \<Rightarrow> pyval \<Rightarrow> string list" where
  "flight_cols a b c d e =
     (if truthy a then [''df.flight_number''] else []) @
     (if truthy b then [''dd1.city''] else []) @
     (if truthy c then [''dd2.city''] else []) @
     (if truthy d then [''fs.departure_date''] else []) @
     (if truthy e then [''fs.status''] else [])"

definition flight_getters :: "pyval \<Rightarrow> pyval \<Rightarrow> pyval \<Rightarrow> pyval \<Rightarrow> pyval \<Rightarrow> (flight_row \<Rightarrow> string option) list" where
  "flight_getters a b c d e =
     (if truthy a then [\<lambda>(df, fs, dd1, dd2, dp). Some (df_flight_number df)] else []) @
     (if truthy b then [\<lambda>(df, fs, dd1, dd2, dp). map_option dd_city dd1] else []) @
     (if truthy c then [\<lambda>(df, fs, dd1, dd2, dp). map_option dd_city dd2] else []) @
     (if truthy d then [\<lambda>(df, fs, dd1, dd2, dp). map_option fs_departure_date fs] else []) @
     (if truthy e then [\<lambda>(df, fs, dd1, dd2, dp). map_option fs_status fs] else [])"

definition pilot_cols :: "pyval \<Rightarrow> pyval \<Rightarrow> pyval \<Rightarrow> string list" where
  "pilot_cols a b c =
     (if truthy a then [''dp.pilot_ID''] else []) @
     (if truthy b then [''dp.first_name''] else []) @
     (if truthy c then [''dp.last_name''] else [])"

definition pilot_getters :: "pyval \<Rightarrow> pyval \<Rightarrow> pyval \<Rightarrow> (pilot_row \<Rightarrow> string option) list" where
  "pilot_getters a b c =
     (if truthy a then [\<lambda>(fs, dp, df, dd1, dd2). Some (dp_pilot_ID dp)] else []) @
     (if truthy b then [\<lambda>(fs, dp, df, dd1, dd2). Some (dp_first_name dp)] else []) @
     (if truthy c then [\<lambda>(fs, dp, df, dd1, dd2). Some (dp_last_name dp)] else [])"



subsection \<open>The rows the specification describes\<close>





subsection \<open>Worlds during an operation\<close>

text \<open>
  \<open>idle w p\<close>: the world \<open>w\<close> after one more connection has been opened, with \<open>p\<close>
  printed; \<open>txn w p d\<close>: the same with that connection inside a transaction whose
  uncommitted tables are \<open>d\<close>.
\<close>

definition opened :: conn where
  "opened = \<lparr>is_open = True, pending = None\<rparr>"

definition closed :: conn where
  "closed = \<lparr>is_open = False, pending = None\<rparr>"

definition idle :: "world \<Rightarrow> report list \<Rightarrow> world" where
  "idle w p = w\<lparr>conns := conns w @ [opened], printed := p\<rparr>"

definition txn :: "world \<Rightarrow> report list \<Rightarrow> db \<Rightarrow> world" where
  "txn w p d = w\<lparr>conns := conns w @ [\<lparr>is_open = True, pending = Some d\<rparr>], printed := p\<rparr>"

subsection \<open>The batch of \<^verbatim>\<open>modify_schedule\<close>\<close>

text \<open>
  \<open>with_fields\<close>: a schedule row with every supplied field set. \<open>schedule_batch\<close>:
  the statements \<^verbatim>\<open>modify_schedule\<close> runs between \<^verbatim>\<open>BEGIN\<close> and \<^verbatim>\<open>commit\<close>,
  applied in turn to the tables \<open>d\<close>.
\<close>

definition with_fields :: "pyval \<Rightarrow> pyval \<Rightarrow> pyval \<Rightarrow> schedule \<Rightarrow> schedule" where
  "with_fields new_departure_time new_arrival_time new_status fs =
     fs\<lparr>fs_actual_departure_time :=
          (if truthy new_departure_time then Some (text_of new_departure_time)
           else fs_actual_departure_time fs),
        fs_actual_arrival_time :=
          (if truthy new_arrival_time then Some (text_of new_arrival_time)
           else fs_actual_arrival_time fs),
        fs_status := (if truthy new_status then text_of new_status else fs_status fs)\<rparr>"

definition schedule_batch :: "pyval \<Rightarrow> pyval \<Rightarrow> pyval \<Rightarrow> int \<Rightarrow> db \<Rightarrow> error + db" where
  "schedule_batch a b c sid d =
     attempt (if truthy a then set_actual_departure_time a sid d else Inr d)
       (\<lambda>d1. attempt (if truthy b then set_actual_arrival_time b sid d1 else Inr d1)
       (\<lambda>d2. if truthy c then set_status c sid d2 else Inr d2))"

subsection \<open>Conditions and the tables shown\<close>



definition table_or_nodata :: "sqlval list list \<Rightarrow> report" where
  "table_or_nodata result = (if result \<noteq> [] then Table result else NoData)"

definition pilots_shown :: "pyval \<Rightarrow> db \<Rightarrow> report" where
  "pilots_shown pilot_id d =
     table_or_nodata
       (map pilots_select (filter (pilot_filter pilot_id PNone PNone) (pilots_join d)))"

definition flights_shown :: "pyval \<Rightarrow> pyval \<Rightarrow> pyval \<Rightarrow> pyval \<Rightarrow> db \<Rightarrow> report" where
  "flights_shown flight_number departure_city arrival_city departure_date d =
     table_or_nodata
       (map flights_select
          (order_by_desc flight_date
             (filter (flight_filter flight_number departure_city arrival_city departure_date
                        PNone) (flights_join d))))"

section \<open>Properties\<close>

subsection \<open>Values that reach the engine\<close>

lemma bindable_bind: "bindable v = (bind_param v = Inr (bound v))"
  by (cases v) (simp_all add: bindable_def)

lemma matches_text_eq: "matches col v = (bindable v \<and> text_eq col (bound v))"
  by (cases col; cases v) (auto simp: matches_def bindable_def)

subsection \<open>The text of \<^verbatim>\<open>fetch_flights\<close> is read as composed\<close>

lemma sql_lex_aux_blank:
  "is_space c \<Longrightarrow> sql_lex_aux acc (s @ c # t) = sql_lex_aux acc s @ sql_lex_aux [] t"
  by (induction s arbitrary: acc) auto

lemma sql_lex_after_blank:
  "is_space c \<Longrightarrow> sql_lex ((s @ [c]) @ t) = sql_lex (s @ [c]) @ sql_lex t"
  using sql_lex_aux_blank [of c "[]" s t] sql_lex_aux_blank [of c "[]" s "[]"]
  by (simp add: sql_lex_def)

lemma flight_query_base_blank:
  "flight_query_base = butlast flight_query_base @ '' ''"
  by code_simp

lemma flight_base_plain:
  "list_all (\<lambda>t. t \<noteq> ''WHERE'' \<and> t \<noteq> ''ORDER'') (sql_lex flight_query_base)"
  by code_simp

lemma flight_query_lex:
  "sql_lex (flight_query_base @ t) = sql_lex flight_query_base @ sql_lex t"
proof -
  have "is_space CHR '' ''" by (simp add: is_space_def)
  from sql_lex_after_blank [OF this, of "butlast flight_query_base" t]
  show ?thesis using flight_query_base_blank by simp
qed

lemmas lex_simps = sql_lex_def is_space_def is_punct_def is_digit_def

lemma flight_tail_lex:
  "sql_lex ((if flight_where a b c d e \<noteq> [] then '' WHERE '' @ join '' AND '' (flight_where a b c d e) else [])
         @ ''ORDER BY fs.departure_date DESC'')
   = (if flight_cols a b c d e = [] then [] else ''WHERE'' # tl (concat (map (\<lambda>c. [''AND'', c, ''='', ''?'']) (flight_cols a b c d e))))
     @ [''ORDER'', ''BY'', ''fs.departure_date'', ''DESC'']"
  by (cases "truthy a"; cases "truthy b"; cases "truthy c"; cases "truthy d"; cases "truthy e";
      simp add: flight_where_def flight_cols_def lex_simps)

lemma tokens_at_keyword:
  assumes "list_all (\<lambda>t. t \<noteq> ''WHERE'' \<and> t \<noteq> ''ORDER'') ts" "k = ''WHERE'' \<or> k = ''ORDER''"
  shows "select_tokens (ts @ k # us) = ts" "clause_tokens (ts @ k # us) = k # us"
  using assms by (induction ts) (auto simp: select_tokens_def clause_tokens_def)

lemma flight_query_parse:
  "select_tokens (sql_lex (flight_query a b c d e)) = sql_lex flight_query_base"
  "parse_clauses (clause_tokens (sql_lex (flight_query a b c d e)))
     = Some (flight_cols a b c d e, Some ''fs.departure_date'')"
  unfolding flight_query_def Let_def flight_query_lex flight_tail_lex
  by (cases "truthy a"; cases "truthy b"; cases "truthy c"; cases "truthy d"; cases "truthy e";
      simp add: flight_cols_def tokens_at_keyword [OF flight_base_plain])+

lemma resolve_append:
  "resolve cs (xs @ ys) =
     (case resolve cs xs of None \<Rightarrow> None
      | Some f \<Rightarrow> (case resolve cs ys of None \<Rightarrow> None | Some g \<Rightarrow> Some (f @ g)))"
  by (induction xs) (auto split: option.splits)

lemma flight_resolve:
  "resolve flight_columns (flight_cols a b c d e) = Some (flight_getters a b c d e)"
  "resolve flight_columns [''fs.departure_date''] = Some [flight_date]"
  by (simp_all add: flight_cols_def flight_getters_def resolve_append flight_columns_def flight_date_def)

lemma bind_params_append:
  "bind_params (xs @ ys) =
     (case bind_params xs of Inl e \<Rightarrow> Inl e
      | Inr f \<Rightarrow> (case bind_params ys of Inl e \<Rightarrow> Inl e | Inr g \<Rightarrow> Inr (f @ g)))"
  by (induction xs) (auto split: sum.splits)

lemma flight_bind:
  assumes "truthy a \<longrightarrow> bindable a" "truthy b \<longrightarrow> bindable b" "truthy c \<longrightarrow> bindable c"
    "truthy d \<longrightarrow> bindable d" "truthy e \<longrightarrow> bindable e"
  shows "bind_params (flight_fields a b c d e) = Inr (map bound (flight_fields a b c d e))"
  using assms by (simp add: flight_fields_def bind_params_append bindable_bind)

lemma flight_lengths: "length (flight_cols a b c d e) = length (flight_fields a b c d e)"
  by (simp add: flight_cols_def flight_fields_def)

lemma flight_pred:
  assumes "truthy a \<longrightarrow> bindable a" "truthy b \<longrightarrow> bindable b" "truthy c \<longrightarrow> bindable c"
    "truthy d \<longrightarrow> bindable d" "truthy e \<longrightarrow> bindable e"
  shows "list_all (\<lambda>(g, v). text_eq (g r) v)
           (zip (flight_getters a b c d e) (map bound (flight_fields a b c d e)))
         = flight_filter a b c d e r"
  using assms
  by (cases r) (simp add: flight_getters_def flight_fields_def flight_filter_def matches_text_eq)

lemma fetch_flights_result_eq:
  assumes "truthy a \<longrightarrow> bindable a" "truthy b \<longrightarrow> bindable b" "truthy c \<longrightarrow> bindable c"
    "truthy d \<longrightarrow> bindable d" "truthy e \<longrightarrow> bindable e"
  shows "fetch_flights_result a b c d e db =
           Inr (map flights_select
                  (order_by_desc flight_date (filter (flight_filter a b c d e) (flights_join db))))"
  unfolding fetch_flights_result_def run_query_def flight_query_parse
  by (simp add: flight_resolve flight_lengths flight_bind [OF assms] flight_pred [OF assms]
      attempt_def del: resolve.simps)

subsection \<open>Ordering\<close>









subsection \<open>The texts of \<^verbatim>\<open>fetch_pilots\<close> and \<^verbatim>\<open>fetch_destinations\<close>\<close>

lemma tokens_plain:
  assumes "list_all (\<lambda>t. t \<noteq> ''WHERE'' \<and> t \<noteq> ''ORDER'') ts"
  shows "select_tokens ts = ts" "clause_tokens ts = []"
  using assms by (simp_all add: select_tokens_def clause_tokens_def list_all_iff)

lemma pilot_query_base_blank: "pilot_query_base = butlast pilot_query_base @ '' ''"
  by code_simp

lemma pilot_base_plain:
  "list_all (\<lambda>t. t \<noteq> ''WHERE'' \<and> t \<noteq> ''ORDER'') (sql_lex pilot_query_base)"
  by code_simp

lemma pilot_query_lex:
  "sql_lex (pilot_query_base @ t) = sql_lex pilot_query_base @ sql_lex t"
proof -
  have "is_space CHR '' ''" by (simp add: is_space_def)
  from sql_lex_after_blank [OF this, of "butlast pilot_query_base" t]
  show ?thesis using pilot_query_base_blank by simp
qed

lemma pilot_tail_lex:
  "sql_lex (if pilot_where a b c \<noteq> [] then '' WHERE '' @ join '' AND '' (pilot_where a b c) else [])
   = (if pilot_cols a b c = [] then []
      else ''WHERE'' # tl (concat (map (\<lambda>c. [''AND'', c, ''='', ''?'']) (pilot_cols a b c))))"
  by (cases "truthy a"; cases "truthy b"; cases "truthy c";
      simp add: pilot_where_def pilot_cols_def lex_simps)

lemma pilot_query_parse:
  "select_tokens (sql_lex (pilot_query a b c)) = sql_lex pilot_query_base"
  "parse_clauses (clause_tokens (sql_lex (pilot_query a b c))) = Some (pilot_cols a b c, None)"
  unfolding pilot_query_def Let_def pilot_query_lex pilot_tail_lex
  by (cases "truthy a"; cases "truthy b"; cases "truthy c";
      simp add: pilot_cols_def tokens_at_keyword [OF pilot_base_plain]
        tokens_plain [OF pilot_base_plain])+

lemma pilot_resolve:
  "resolve pilot_columns (pilot_cols a b c) = Some (pilot_getters a b c)"
  by (simp add: pilot_cols_def pilot_getters_def resolve_append pilot_columns_def)

lemma pilot_bind:
  assumes "truthy a \<longrightarrow> bindable a" "truthy b \<longrightarrow> bindable b" "truthy c \<longrightarrow> bindable c"
  shows "bind_params (pilot_fields a b c) = Inr (map bound (pilot_fields a b c))"
  using assms by (simp add: pilot_fields_def bind_params_append bindable_bind)

lemma pilot_lengths: "length (pilot_cols a b c) = length (pilot_fields a b c)"
  by (simp add: pilot_cols_def pilot_fields_def)

lemma pilot_pred:
  assumes "truthy a \<longrightarrow> bindable a" "truthy b \<longrightarrow> bindable b" "truthy c \<longrightarrow> bindable c"
  shows "list_all (\<lambda>(g, v). text_eq (g r) v)
           (zip (pilot_getters a b c) (map bound (pilot_fields a b c)))
         = pilot_filter a b c r"
  using assms
  by (cases r) (simp add: pilot_getters_def pilot_fields_def pilot_filter_def matches_text_eq)

lemma fetch_pilots_result_eq:
  assumes "truthy a \<longrightarrow> bindable a" "truthy b \<longrightarrow> bindable b" "truthy c \<longrightarrow> bindable c"
  shows "fetch_pilots_result a b c db =
           Inr (map pilots_select (filter (pilot_filter a b c) (pilots_join db)))"
  unfolding fetch_pilots_result_def run_query_def pilot_query_parse
  by (simp add: pilot_resolve pilot_lengths pilot_bind [OF assms] pilot_pred [OF assms]
      attempt_def del: resolve.simps(2))











subsection \<open>What the \<^verbatim>\<open>fetch_\<close> functions do to the world\<close>

lemma fetch_flights_world:
  "fetch_flights a b c d e w =
     (case fetch_flights_result a b c d e (disk w) of
        Inl err \<Rightarrow> (Raised err, w\<lparr>conns := conns w @ [opened]\<rparr>)
      | Inr result \<Rightarrow>
          (Returned, w\<lparr>conns := conns w @ [closed],
                        printed := printed w @ [if result \<noteq> [] then Table result else NoData]\<rparr>))"
  by (simp add: fetch_flights_def open_connection_def query_def usable_def view_def
      close_connection_def say_def opened_def closed_def nth_append split: sum.splits)

lemma fetch_pilots_world:
  "fetch_pilots a b c w =
     (case fetch_pilots_result a b c (disk w) of
        Inl err \<Rightarrow> (Raised err, w\<lparr>conns := conns w @ [opened]\<rparr>)
      | Inr result \<Rightarrow>
          (Returned, w\<lparr>conns := conns w @ [closed],
                        printed := printed w @ [if result \<noteq> [] then Table result else NoData]\<rparr>))"
  by (simp add: fetch_pilots_def open_connection_def query_def usable_def view_def
      close_connection_def say_def opened_def closed_def nth_append split: sum.splits)


subsection \<open>Steps of the engine on a new connection\<close>

lemma open_connection_idle:
  "open_connection w = (length (conns w), idle w (printed w))"
  by (simp add: open_connection_def idle_def opened_def)

lemma say_idle: "say r (idle w p) = idle w (p @ [r])"
  by (simp add: say_def idle_def)

lemma say_txn: "say r (txn w p d) = txn w (p @ [r]) d"
  by (simp add: say_def txn_def)

lemma query_idle: "query (length (conns w)) q (idle w p) = q (disk w)"
  by (simp add: query_def usable_def view_def idle_def opened_def)

lemma query_txn: "query (length (conns w)) q (txn w p d) = q d"
  by (simp add: query_def usable_def view_def txn_def)

lemma begin_idle: "begin_transaction (length (conns w)) (idle w p) = (Returned, txn w p (disk w))"
  by (simp add: begin_transaction_def usable_def idle_def txn_def opened_def)

lemma execute_txn:
  "execute_update (length (conns w)) stmt (txn w p d) =
     (case stmt d of Inl e \<Rightarrow> (Raised e, txn w p d) | Inr d' \<Rightarrow> (Returned, txn w p d'))"
  by (simp add: execute_update_def usable_def view_def txn_def split: sum.splits)

lemma commit_txn:
  "commit (length (conns w)) (txn w p d) = (Returned, idle (w\<lparr>disk := d\<rparr>) p)"
  by (simp add: commit_def usable_def txn_def idle_def opened_def)

lemma close_idle:
  "close_connection (length (conns w)) (idle w p) =
     (Returned, w\<lparr>conns := conns w @ [closed], printed := p\<rparr>)"
  by (simp add: close_connection_def usable_def idle_def opened_def closed_def)

lemma disk_idle: "disk (idle w p) = disk w" "conns (idle w p) = conns w @ [opened]"
  "printed (idle w p) = p"
  by (simp_all add: idle_def)

lemma disk_txn: "disk (txn w p d) = disk w" "printed (txn w p d) = p"
  "conns (txn w p d) = conns w @ [\<lparr>is_open = True, pending = Some d\<rparr>]"
  by (simp_all add: txn_def)

subsection \<open>The statements of \<^verbatim>\<open>modify_schedule\<close>\<close>

lemma update_rows_ok:
  "(\<And>r. cond r \<Longrightarrow> set_col r = Inr (f r)) \<Longrightarrow>
   update_rows cond set_col rs = Inr (map (\<lambda>r. if cond r then f r else r) rs)"
  by (induction rs) (simp_all add: attempt_def)

lemma update_rows_fail:
  "(\<And>r. cond r \<Longrightarrow> set_col r = Inl e) \<Longrightarrow> \<exists>r\<in>set rs. cond r \<Longrightarrow>
   update_rows cond set_col rs = Inl e"
proof (induction rs)
  case Nil
  then show ?case by simp
next
  case (Cons r rs)
  show ?case
  proof (cases "cond r")
    case True
    with Cons.prems(1) show ?thesis by (simp add: attempt_def)
  next
    case False
    with Cons.prems(2) have "\<exists>r\<in>set rs. cond r" by auto
    with Cons.IH Cons.prems(1) have "update_rows cond set_col rs = Inl e" by blast
    with False show ?thesis by (simp add: attempt_def)
  qed
qed

lemma storable_store:
  assumes "truthy v" "storable v"
  shows "bind_param v = Inr (bound v)" "store_text (bound v) = Inr (Some (text_of v))"
    "store_text_not_null (bound v) = Inr (text_of v)"
  using assms by (cases v; simp)+

lemma not_storable_store:
  assumes "truthy v" "\<not> storable v"
  shows "bind_param v = Inl OverflowError
         \<or> (bind_param v = Inr (bound v) \<and> store_text (bound v) = Inl IntegrityError
            \<and> store_text_not_null (bound v) = Inl IntegrityError)"
  using assms by (cases v) auto

lemma set_actual_departure_time_ok:
  assumes "in_int64 sid" "truthy v" "storable v"
  shows "set_actual_departure_time v sid d =
           Inr (d\<lparr>f_schedule := map (\<lambda>fs. if fs_schedule_ID fs = sid
                                          then fs\<lparr>fs_actual_departure_time := Some (text_of v)\<rparr>
                                          else fs) (f_schedule d)\<rparr>)"
  using assms
  by (simp add: set_actual_departure_time_def attempt_def storable_store in_int64_def
      update_rows_ok [where f = "\<lambda>fs. fs\<lparr>fs_actual_departure_time := Some (text_of v)\<rparr>"])

lemma set_actual_arrival_time_ok:
  assumes "in_int64 sid" "truthy v" "storable v"
  shows "set_actual_arrival_time v sid d =
           Inr (d\<lparr>f_schedule := map (\<lambda>fs. if fs_schedule_ID fs = sid
                                          then fs\<lparr>fs_actual_arrival_time := Some (text_of v)\<rparr>
                                          else fs) (f_schedule d)\<rparr>)"
  using assms
  by (simp add: set_actual_arrival_time_def attempt_def storable_store in_int64_def
      update_rows_ok [where f = "\<lambda>fs. fs\<lparr>fs_actual_arrival_time := Some (text_of v)\<rparr>"])

lemma set_status_ok:
  assumes "in_int64 sid" "truthy v" "storable v"
  shows "set_status v sid d =
           Inr (d\<lparr>f_schedule := map (\<lambda>fs. if fs_schedule_ID fs = sid
                                          then fs\<lparr>fs_status := text_of v\<rparr>
                                          else fs) (f_schedule d)\<rparr>)"
  using assms
  by (simp add: set_status_def attempt_def storable_store in_int64_def
      update_rows_ok [where f = "\<lambda>fs. fs\<lparr>fs_status := text_of v\<rparr>"])

lemma set_actual_departure_time_fail:
  assumes "truthy v" "\<not> storable v" "\<exists>fs\<in>set (f_schedule d). fs_schedule_ID fs = sid"
  shows "\<exists>e. set_actual_departure_time v sid d = Inl e"
proof -
  have "update_rows (\<lambda>fs. fs_schedule_ID fs = sid) (\<lambda>fs. Inl IntegrityError) (f_schedule d)
          = Inl IntegrityError"
    by (rule update_rows_fail) (use assms(3) in auto)
  with not_storable_store [OF assms(1,2)] show ?thesis
    by (auto simp: set_actual_departure_time_def attempt_def split: sum.splits)
qed

lemma set_actual_arrival_time_fail:
  assumes "truthy v" "\<not> storable v" "\<exists>fs\<in>set (f_schedule d). fs_schedule_ID fs = sid"
  shows "\<exists>e. set_actual_arrival_time v sid d = Inl e"
proof -
  have "update_rows (\<lambda>fs. fs_schedule_ID fs = sid) (\<lambda>fs. Inl IntegrityError) (f_schedule d)
          = Inl IntegrityError"
    by (rule update_rows_fail) (use assms(3) in auto)
  with not_storable_store [OF assms(1,2)] show ?thesis
    by (auto simp: set_actual_arrival_time_def attempt_def split: sum.splits)
qed

lemma set_status_fail:
  assumes "truthy v" "\<not> storable v" "\<exists>fs\<in>set (f_schedule d). fs_schedule_ID fs = sid"
  shows "\<exists>e. set_status v sid d = Inl e"
proof -
  have "update_rows (\<lambda>fs. fs_schedule_ID fs = sid) (\<lambda>fs. Inl IntegrityError) (f_schedule d)
          = Inl IntegrityError"
    by (rule update_rows_fail) (use assms(3) in auto)
  with not_storable_store [OF assms(1,2)] show ?thesis
    by (auto simp: set_status_def attempt_def split: sum.splits)
qed

lemma row_kept:
  assumes "\<exists>fs\<in>set rows. fs_schedule_ID fs = sid" "\<And>fs. fs_schedule_ID (g fs) = fs_schedule_ID fs"
  shows "\<exists>fs\<in>set (map (\<lambda>fs. if fs_schedule_ID fs = sid then g fs else fs) rows).
           fs_schedule_ID fs = sid"
  using assms by (induction rows) auto

lemma schedule_batch_ok:
  assumes "in_int64 sid"
    "truthy a \<longrightarrow> storable a" "truthy b \<longrightarrow> storable b" "truthy c \<longrightarrow> storable c"
  shows "schedule_batch a b c sid d =
           Inr (d\<lparr>f_schedule := map (\<lambda>fs. if fs_schedule_ID fs = sid then with_fields a b c fs
                                          else fs) (f_schedule d)\<rparr>)"
  using assms
  by (cases "truthy a"; cases "truthy b"; cases "truthy c";
      simp add: schedule_batch_def attempt_def set_actual_departure_time_ok
        set_actual_arrival_time_ok set_status_ok with_fields_def o_def cong: if_cong)

lemma schedule_batch_fail:
  assumes "in_int64 sid" "\<exists>fs\<in>set (f_schedule d). fs_schedule_ID fs = sid"
    "\<not> ((truthy a \<longrightarrow> storable a) \<and> (truthy b \<longrightarrow> storable b) \<and> (truthy c \<longrightarrow> storable c))"
  shows "\<exists>e. schedule_batch a b c sid d = Inl e"
proof -
  let ?step1 = "if truthy a then set_actual_departure_time a sid d else Inr d"
  show ?thesis
  proof (cases ?step1)
    case (Inl e)
    then show ?thesis by (simp add: schedule_batch_def attempt_def)
  next
    case (Inr d1)
    have a_ok: "truthy a \<longrightarrow> storable a"
      using Inr set_actual_departure_time_fail [OF _ _ assms(2), of a] by (auto split: if_splits)
    have d1: "\<exists>fs\<in>set (f_schedule d1). fs_schedule_ID fs = sid"
    proof (cases "truthy a")
      case True
      with a_ok Inr assms(1) have
        "d1 = d\<lparr>f_schedule := map (\<lambda>fs. if fs_schedule_ID fs = sid
                   then fs\<lparr>fs_actual_departure_time := Some (text_of a)\<rparr> else fs)
                   (f_schedule d)\<rparr>"
        by (simp add: set_actual_departure_time_ok)
      then show ?thesis using row_kept [OF assms(2), of "\<lambda>fs. fs\<lparr>fs_actual_departure_time := Some (text_of a)\<rparr>"]
        by simp
    next
      case False
      with Inr assms(2) show ?thesis by simp
    qed
    let ?step2 = "if truthy b then set_actual_arrival_time b sid d1 else Inr d1"
    show ?thesis
    proof (cases ?step2)
      case (Inl e)
      with Inr show ?thesis by (simp add: schedule_batch_def attempt_def)
    next
      case (Inr d2)
      have b_ok: "truthy b \<longrightarrow> storable b"
        using Inr set_actual_arrival_time_fail [OF _ _ d1, of b] by (auto split: if_splits)
      have d2: "\<exists>fs\<in>set (f_schedule d2). fs_schedule_ID fs = sid"
      proof (cases "truthy b")
        case True
        with b_ok Inr assms(1) have
          "d2 = d1\<lparr>f_schedule := map (\<lambda>fs. if fs_schedule_ID fs = sid
                     then fs\<lparr>fs_actual_arrival_time := Some (text_of b)\<rparr> else fs)
                     (f_schedule d1)\<rparr>"
          by (simp add: set_actual_arrival_time_ok)
        then show ?thesis using row_kept [OF d1, of "\<lambda>fs. fs\<lparr>fs_actual_arrival_time := Some (text_of b)\<rparr>"]
          by simp
      next
        case False
        with Inr d1 show ?thesis by simp
      qed
      from a_ok b_ok assms(3) have c: "truthy c" "\<not> storable c" by auto
      from set_status_fail [OF c d2] obtain e where "set_status c sid d2 = Inl e" by blast
      with c \<open>?step1 = Inr d1\<close> Inr show ?thesis
        by (simp add: schedule_batch_def attempt_def)
    qed
  qed
qed

lemma field_step:
  "and_then (if supplied then execute_update (length (conns w)) stmt (txn w p d)
             else (Returned, txn w p d)) k =
     (case (if supplied then stmt d else Inr d) of
        Inl e \<Rightarrow> (Raised e, txn w p d)
      | Inr d' \<Rightarrow> k (txn w p d'))"
  by (simp add: and_then_def execute_txn split: sum.splits)

lemma and_then_Returned: "and_then (Returned, w) k = k w"
  by (simp add: and_then_def)

lemma and_then_Raised: "and_then (Raised e, w) k = (Raised e, w)"
  by (simp add: and_then_def)

lemma schedule_lookup_eq:
  "in_int64 sid \<Longrightarrow>
   schedule_lookup sid d =
     Inr (map schedule_select (filter (\<lambda>fs. fs_schedule_ID fs = sid) (f_schedule d)))"
  by (simp add: schedule_lookup_def attempt_def in_int64_def)

lemma modify_schedule_found:
  assumes "in_int64 sid"
    "filter (\<lambda>fs. fs_schedule_ID fs = sid) (f_schedule (disk w)) = r # rest"
  shows "case schedule_batch a b c sid (disk w) of
           Inl e \<Rightarrow>
             fst (modify_schedule (Some sid) a b c w) = Raised e
             \<and> disk (snd (modify_schedule (Some sid) a b c w)) = disk w
             \<and> (\<exists>d'. conns (snd (modify_schedule (Some sid) a b c w))
                        = conns w @ [\<lparr>is_open = True, pending = Some d'\<rparr>])
         | Inr d' \<Rightarrow>
             modify_schedule (Some sid) a b c w =
               (Returned,
                w\<lparr>disk := d', conns := conns w @ [closed],
                  printed := printed w @
                    [Table [schedule_select r],
                     (case filter (\<lambda>fs. fs_schedule_ID fs = sid) (f_schedule d') of
                        [] \<Rightarrow> NoDataAfterUpdate
                      | r' # _ \<Rightarrow> Table [schedule_select r'])]\<rparr>)"
proof -
  note start = modify_schedule_def open_connection_idle query_idle
    schedule_lookup_eq [OF assms(1)] assms(2) say_idle begin_idle field_step
    and_then_Returned
  let ?step1 = "if truthy a then set_actual_departure_time a sid (disk w) else Inr (disk w)"
  show ?thesis
  proof (cases ?step1)
    case (Inl e)
    then show ?thesis
      by (simp add: start schedule_batch_def attempt_def disk_txn)
  next
    case step1: (Inr d1)
    let ?step2 = "if truthy b then set_actual_arrival_time b sid d1 else Inr d1"
    show ?thesis
    proof (cases ?step2)
      case (Inl e)
      with step1 show ?thesis
        by (simp add: start schedule_batch_def attempt_def disk_txn)
    next
      case step2: (Inr d2)
      let ?step3 = "if truthy c then set_status c sid d2 else Inr d2"
      show ?thesis
      proof (cases ?step3)
        case (Inl e)
        with step1 step2 show ?thesis
          by (simp add: start schedule_batch_def attempt_def disk_txn)
      next
        case step3: (Inr d3)
        have "schedule_batch a b c sid (disk w) = Inr d3"
          using step1 step2 step3 by (simp add: schedule_batch_def attempt_def)
        moreover have "modify_schedule (Some sid) a b c w =
               (Returned,
                w\<lparr>disk := d3, conns := conns w @ [closed],
                  printed := printed w @
                    [Table [schedule_select r],
                     (case filter (\<lambda>fs. fs_schedule_ID fs = sid) (f_schedule d3) of
                        [] \<Rightarrow> NoDataAfterUpdate
                      | r' # _ \<Rightarrow> Table [schedule_select r'])]\<rparr>)"
          using step1 step2 step3
          by (cases "filter (\<lambda>fs. fs_schedule_ID fs = sid) (f_schedule d3)")
             (simp_all add: start commit_txn close_idle
               query_idle [of "w\<lparr>disk := d3\<rparr>", simplified]
               say_idle close_idle [of "w\<lparr>disk := d3\<rparr>", simplified])
        ultimately show ?thesis by simp
      qed
    qed
  qed
qed

subsection \<open>The base joins\<close>



lemma pilots_join_assigned:
  "(fs, dp, df, dd1, dd2) \<in> set (pilots_join d) \<Longrightarrow>
     fs \<in> set (f_schedule d) \<and> dp \<in> set (d_pilot d) \<and> df \<in> set (d_flight d)
     \<and> fs_pilot_ID fs = Some (dp_pilot_ID dp) \<and> fs_flight_ID fs = df_flight_ID df"
  by (auto simp: pilots_join_def inner_join_def)

lemma fields_bindable:
  "list_all bindable (flight_fields a b c d e) \<longleftrightarrow>
     (truthy a \<longrightarrow> bindable a) \<and> (truthy b \<longrightarrow> bindable b) \<and> (truthy c \<longrightarrow> bindable c)
     \<and> (truthy d \<longrightarrow> bindable d) \<and> (truthy e \<longrightarrow> bindable e)"
  "list_all bindable (pilot_fields a b c) \<longleftrightarrow>
     (truthy a \<longrightarrow> bindable a) \<and> (truthy b \<longrightarrow> bindable b) \<and> (truthy c \<longrightarrow> bindable c)"
  "list_all bindable (destination_fields a b c d) \<longleftrightarrow>
     (truthy a \<longrightarrow> bindable a) \<and> (truthy b \<longrightarrow> bindable b) \<and> (truthy c \<longrightarrow> bindable c)
     \<and> (truthy d \<longrightarrow> bindable d)"
  by (simp_all add: flight_fields_def pilot_fields_def destination_fields_def)





subsection \<open>The seeded database\<close>

lemma sample_db_tables:
  "sample_db =
     \<lparr>d_pilot = map pilot_of pilots, d_flight = map flight_of flights,
      d_destination = map destination_of destinations,
      f_schedule = map schedule_of schedule\<rparr>"
  by code_simp

lemma load_sample_data_fresh:
  "load_sample_data (fresh empty_db) =
     (Returned, \<lparr>disk = sample_db, conns = [\<lparr>is_open = False, pending = None\<rparr>], printed = []\<rparr>)"
  by code_simp

subsection \<open>Arguments that fail the truth test\<close>

lemma fetch_flights_result_falsy:
  assumes "\<not> truthy v"
  shows "fetch_flights_result v b c d e = fetch_flights_result PNone b c d e"
    "fetch_flights_result a v c d e = fetch_flights_result a PNone c d e"
    "fetch_flights_result a b v d e = fetch_flights_result a b PNone d e"
    "fetch_flights_result a b c v e = fetch_flights_result a b c PNone e"
    "fetch_flights_result a b c d v = fetch_flights_result a b c d PNone"
  using assms
  by (simp_all add: fun_eq_iff fetch_flights_result_def flight_query_def
      flight_where_def flight_fields_def)

lemma fetch_pilots_result_falsy:
  assumes "\<not> truthy v"
  shows "fetch_pilots_result v b c = fetch_pilots_result PNone b c"
    "fetch_pilots_result a v c = fetch_pilots_result a PNone c"
    "fetch_pilots_result a b v = fetch_pilots_result a b PNone"
  using assms
  by (simp_all add: fun_eq_iff fetch_pilots_result_def pilot_query_def
      pilot_where_def pilot_fields_def)

lemma fetch_destinations_result_falsy:
  assumes "\<not> truthy v"
  shows "fetch_destinations_result v b c d = fetch_destinations_result PNone b c d"
    "fetch_destinations_result a v c d = fetch_destinations_result a PNone c d"
    "fetch_destinations_result a b v d = fetch_destinations_result a b PNone d"
    "fetch_destinations_result a b c v = fetch_destinations_result a b c PNone"
  using assms
  by (simp_all add: fun_eq_iff fetch_destinations_result_def
      destination_query_def destination_where_def destination_fields_def)

lemma fetch_flights_falsy:
  assumes "\<not> truthy v"
  shows "fetch_flights v b c d e = fetch_flights PNone b c d e"
    "fetch_flights a v c d e = fetch_flights a PNone c d e"
    "fetch_flights a b v d e = fetch_flights a b PNone d e"
    "fetch_flights a b c v e = fetch_flights a b c PNone e"
    "fetch_flights a b c d v = fetch_flights a b c d PNone"
  by (simp_all add: fun_eq_iff fetch_flights_def fetch_flights_result_falsy [OF assms])

lemma fetch_pilots_falsy:
  assumes "\<not> truthy v"
  shows "fetch_pilots v b c = fetch_pilots PNone b c"
    "fetch_pilots a v c = fetch_pilots a PNone c"
    "fetch_pilots a b v = fetch_pilots a b PNone"
  by (simp_all add: fun_eq_iff fetch_pilots_def fetch_pilots_result_falsy [OF assms])

lemma fetch_destinations_falsy:
  assumes "\<not> truthy v"
  shows "fetch_destinations v b c d = fetch_destinations PNone b c d"
    "fetch_destinations a v c d = fetch_destinations a PNone c d"
    "fetch_destinations a b v d = fetch_destinations a b PNone d"
    "fetch_destinations a b c v = fetch_destinations a b c PNone"
  by (simp_all add: fun_eq_iff fetch_destinations_def fetch_destinations_result_falsy [OF assms])

lemma modify_schedule_falsy:
  assumes "\<not> truthy v"
  shows "modify_schedule sid v b c = modify_schedule sid PNone b c"
    "modify_schedule sid a v c = modify_schedule sid a PNone c"
    "modify_schedule sid a b v = modify_schedule sid a b PNone"
  using assms
  by (simp_all add: fun_eq_iff modify_schedule_def
      cong del: option.case_cong_weak sum.case_cong_weak list.case_cong_weak)

lemma modify_destination_falsy:
  assumes "\<not> truthy v"
  shows "modify_destination su code v b c = modify_destination su code PNone b c"
    "modify_destination su code a v c = modify_destination su code a PNone c"
    "modify_destination su code a b v = modify_destination su code a b PNone"
  using assms
  by (simp_all add: fun_eq_iff modify_destination_def
      cong del: sum.case_cong_weak)

lemma empty_status_updates_nothing:
  "disk (snd (modify_schedule (Some 2) PNone PNone PNone (fresh sample_db))) = sample_db"
  by code_simp

subsection \<open>The runs of \<^verbatim>\<open>assign_pilot\<close>\<close>

lemma close_connection_open:
  "h < length (conns w) \<Longrightarrow> is_open (conns w ! h) \<Longrightarrow>
   close_connection h w = (Returned, w\<lparr>conns := (conns w)[h := closed]\<rparr>)"
  by (simp add: close_connection_def usable_def closed_def)

lemma fetch_pilots_shown:
  assumes "truthy pilot_id \<longrightarrow> bindable pilot_id"
  shows "fetch_pilots pilot_id PNone PNone w =
           (Returned, w\<lparr>conns := conns w @ [closed],
                         printed := printed w @ [pilots_shown pilot_id (disk w)]\<rparr>)"
  using assms
  by (simp add: fetch_pilots_world fetch_pilots_result_eq pilots_shown_def table_or_nodata_def)

lemma fetch_flights_shown:
  assumes "truthy a \<longrightarrow> bindable a" "truthy b \<longrightarrow> bindable b" "truthy c \<longrightarrow> bindable c"
    "truthy d \<longrightarrow> bindable d"
  shows "fetch_flights a b c d PNone w =
           (Returned, w\<lparr>conns := conns w @ [closed],
                         printed := printed w @ [flights_shown a b c d (disk w)]\<rparr>)"
  using assms
  by (simp add: fetch_flights_world fetch_flights_result_eq flights_shown_def
      table_or_nodata_def)




lemma confirm_step_no:
  "lower line = ''no'' \<Longrightarrow>
   confirm_step pid fn dd dc ac h line w = (Some Returned, say NoChanges w)"
  by (simp add: confirm_step_def)

lemma confirm_step_yes_missing:
  assumes "lower line = ''yes''" "flight_id_lookup fn dc ac (disk w) = Inr []"
  shows "confirm_step pid fn dd dc ac h line w =
           (Some Returned, idle w (printed w @ [FlightMissing]))"
  using assms
  by (simp add: confirm_step_def open_connection_idle query_idle say_idle)







lemma confirm_step_yes_rejected:
  assumes "lower line = ''yes''"
    "flight_id_lookup fn dc ac (disk w) = Inr (fid # others)"
    "pilot_assignment pid fid dd (disk w) = Inl e"
  shows "confirm_step pid fn dd dc ac h line w =
           (Some (Raised e), txn w (printed w) (disk w))"
  using assms
  by (simp add: confirm_step_def open_connection_idle query_idle begin_idle execute_txn
      and_then_Returned and_then_Raised)




lemma assign_pilot_prelude:
  assumes "pid \<noteq> PNone" "truthy pid \<longrightarrow> bindable pid"
    "truthy fn" "truthy dd" "truthy dc" "truthy ac"
    "bindable fn" "bindable dd" "bindable dc" "bindable ac"
  shows "assign_pilot pid fn dd dc ac lines w =
           confirm_loop pid fn dd dc ac (length (conns w)) lines
             (w\<lparr>conns := conns w @ [opened, closed, closed],
                printed := printed w @
                  [pilots_shown pid (disk w), flights_shown fn dc ac dd (disk w)]\<rparr>)"
proof -
  let ?w2 = "w\<lparr>conns := conns w @ [opened, closed],
               printed := printed w @ [pilots_shown pid (disk w)]\<rparr>"
  have pilots: "fetch_pilots pid PNone PNone (idle w (printed w)) = (Returned, ?w2)"
    using assms(2) by (simp add: fetch_pilots_shown idle_def)
  have flights: "fetch_flights fn dc ac dd PNone ?w2 =
      (Returned, w\<lparr>conns := conns w @ [opened, closed, closed],
                printed := printed w @
                  [pilots_shown pid (disk w), flights_shown fn dc ac dd (disk w)]\<rparr>)"
    using assms(7-10) by (simp add: fetch_flights_shown)
  show ?thesis
    using assms(1,3-6)
    by (simp add: assign_pilot_def open_connection_idle and_then_Returned pilots flights)
qed

subsection \<open>Early returns\<close>

lemma modify_schedule_missing:
  assumes "in_int64 sid" "sid \<notin> fs_schedule_ID ` set (f_schedule (disk w))"
  shows "modify_schedule (Some sid) a b c w =
           (Returned, idle w (printed w @ [ScheduleMissing sid]))"
proof -
  from assms(2) have "filter (\<lambda>fs. fs_schedule_ID fs = sid) (f_schedule (disk w)) = []"
    by (auto simp: filter_empty_conv)
  then show ?thesis
    using assms(1)
    by (simp add: modify_schedule_def open_connection_idle query_idle schedule_lookup_eq
        say_idle)
qed

lemma missing_argument_general:
  "modify_schedule None a b c w = (Returned, say NoScheduleId w)"
  "modify_destination su PNone a b c w = (Returned, say NoDestinationCode w)"
  "assign_pilot PNone fn dd dc ac lines w =
     (Returned, w\<lparr>conns := conns w @ [closed], printed := printed w @ [NoPilotId]\<rparr>)"
  by (simp_all add: modify_schedule_def modify_destination_def assign_pilot_def
      open_connection_idle say_idle close_idle)


lemma world_update_order:
  "w\<lparr>printed := p, conns := c\<rparr> = w\<lparr>conns := c, printed := p\<rparr>"
  by (cases w) simp

lemma confirm_step_other:
  assumes "lower line \<noteq> ''no''" "lower line \<noteq> ''yes''"
    "truthy pid \<longrightarrow> bindable pid" "truthy fn \<longrightarrow> bindable fn" "truthy dd \<longrightarrow> bindable dd"
    "truthy dc \<longrightarrow> bindable dc" "truthy ac \<longrightarrow> bindable ac"
  shows "confirm_step pid fn dd dc ac h line w =
           (case close_connection h
                   (w\<lparr>conns := conns w @ [closed, closed],
                      printed := printed w @
                        [pilots_shown pid (disk w), flights_shown fn dc ac dd (disk w)]\<rparr>) of
              (Returned, w') \<Rightarrow> (None, w')
            | (Raised e, w') \<Rightarrow> (Some (Raised e), w'))"
proof -
  let ?w1 = "w\<lparr>conns := conns w @ [closed],
               printed := printed w @ [pilots_shown pid (disk w)]\<rparr>"
  have pilots: "fetch_pilots pid PNone PNone w = (Returned, ?w1)"
    using assms(3) by (simp add: fetch_pilots_shown)
  have flights: "fetch_flights fn dc ac dd PNone ?w1 =
      (Returned, w\<lparr>conns := conns w @ [closed, closed],
                   printed := printed w @
                     [pilots_shown pid (disk w), flights_shown fn dc ac dd (disk w)]\<rparr>)"
    using assms(4-7) by (simp add: fetch_flights_shown)
  show ?thesis
    using assms(1,2)
    by (simp add: confirm_step_def and_then_Returned pilots flights)
qed

lemma assign_pilot_incomplete:
  assumes "pid \<noteq> PNone" "truthy pid \<longrightarrow> bindable pid"
    "\<not> (truthy fn \<and> truthy dd \<and> truthy dc \<and> truthy ac)"
  shows "assign_pilot pid fn dd dc ac lines w =
           (Returned, w\<lparr>conns := conns w @ [opened, closed],
                         printed := printed w @ [pilots_shown pid (disk w),
                                                  CriteriaIncomplete]\<rparr>)"
proof -
  have pilots: "fetch_pilots pid PNone PNone (idle w (printed w)) =
      (Returned, w\<lparr>conns := conns w @ [opened, closed],
                    printed := printed w @ [pilots_shown pid (disk w)]\<rparr>)"
    using assms(2) by (simp add: fetch_pilots_shown idle_def)
  show ?thesis
    using assms(1,3)
    by (simp add: assign_pilot_def open_connection_idle and_then_Returned pilots say_def)
qed

lemma assign_pilot_unrecognised_twice:
  assumes "pilot_id \<noteq> PNone" "truthy pilot_id \<longrightarrow> bindable pilot_id"
    "truthy flight_number" "truthy departure_date" "truthy departure_city"
    "truthy arrival_city"
    "bindable flight_number" "bindable departure_date" "bindable departure_city"
    "bindable arrival_city"
    "lower first \<noteq> ''no''" "lower first \<noteq> ''yes''"
    "lower second \<noteq> ''no''" "lower second \<noteq> ''yes''"
  shows "assign_pilot pilot_id flight_number departure_date departure_city arrival_city
           (first # lines) w =
         confirm_loop pilot_id flight_number departure_date departure_city arrival_city
           (length (conns w)) lines
           (w\<lparr>conns := conns w @ [closed, closed, closed, closed, closed],
              printed := printed w @
                [pilots_shown pilot_id (disk w),
                 flights_shown flight_number departure_city arrival_city departure_date (disk w),
                 pilots_shown pilot_id (disk w),
                 flights_shown flight_number departure_city arrival_city departure_date
                   (disk w)]\<rparr>)
       \<and> assign_pilot pilot_id flight_number departure_date departure_city arrival_city
           (first # second # lines) w =
         (Raised ProgrammingError,
          w\<lparr>conns := conns w @ [closed, closed, closed, closed, closed, closed, closed],
            printed := printed w @
              [pilots_shown pilot_id (disk w),
               flights_shown flight_number departure_city arrival_city departure_date (disk w),
               pilots_shown pilot_id (disk w),
               flights_shown flight_number departure_city arrival_city departure_date (disk w),
               pilots_shown pilot_id (disk w),
               flights_shown flight_number departure_city arrival_city departure_date
                 (disk w)]\<rparr>)"
proof -
  note other = confirm_step_other [where pid = pilot_id and fn = flight_number
      and dd = departure_date and dc = departure_city and ac = arrival_city]
  have first: "assign_pilot pilot_id flight_number departure_date departure_city arrival_city
           (first # ls) w =
         confirm_loop pilot_id flight_number departure_date departure_city arrival_city
           (length (conns w)) ls
           (w\<lparr>conns := conns w @ [closed, closed, closed, closed, closed],
              printed := printed w @
                [pilots_shown pilot_id (disk w),
                 flights_shown flight_number departure_city arrival_city departure_date (disk w),
                 pilots_shown pilot_id (disk w),
                 flights_shown flight_number departure_city arrival_city departure_date
                   (disk w)]\<rparr>)" for ls
    using assms(1-12)
    by (simp add: assign_pilot_prelude other close_connection_def usable_def nth_append
        opened_def closed_def list_update_append world_update_order)
  have second: "confirm_step pilot_id flight_number departure_date departure_city arrival_city
      (length (conns w)) second
      (w\<lparr>conns := conns w @ [closed, closed, closed, closed, closed],
              printed := printed w @
                [pilots_shown pilot_id (disk w),
                 flights_shown flight_number departure_city arrival_city departure_date (disk w),
                 pilots_shown pilot_id (disk w),
                 flights_shown flight_number departure_city arrival_city departure_date
                   (disk w)]\<rparr>) =
      (Some (Raised ProgrammingError),
       w\<lparr>conns := conns w @ [closed, closed, closed, closed, closed, closed, closed],
            printed := printed w @
              [pilots_shown pilot_id (disk w),
               flights_shown flight_number departure_city arrival_city departure_date (disk w),
               pilots_shown pilot_id (disk w),
               flights_shown flight_number departure_city arrival_city departure_date (disk w),
               pilots_shown pilot_id (disk w),
               flights_shown flight_number departure_city arrival_city departure_date
                 (disk w)]\<rparr>)"
    using assms(2-14)
    by (simp add: other close_connection_def usable_def nth_append closed_def
        world_update_order)
  show ?thesis
    by (intro conjI) (simp_all add: first second)
qed

lemma sample_world_facts:
  "lower ''maybe'' \<noteq> ''no''" "lower ''maybe'' \<noteq> ''yes''"
  "lower ''perhaps'' \<noteq> ''no''" "lower ''perhaps'' \<noteq> ''yes''"
  "lower ''no'' = ''no''" "lower ''yes'' = ''yes''"
  "2 \<in> fs_schedule_ID ` set (f_schedule (disk (fresh sample_db)))"
  "schedule_batch PNone PNone (PBytes ''late'') 2 (disk (fresh sample_db)) = Inl IntegrityError"
  "999 \<notin> fs_schedule_ID ` set (f_schedule (disk (fresh sample_db)))"
  "flight_id_lookup (PStr ''SI9999'') (PStr ''Exeter'') (PStr ''Jersey'')
     (disk (fresh sample_db)) = Inr []"
  by code_simp+

subsection \<open>The rows of the specification\<close>









subsection \<open>Rows fetched from the seeded database\<close>









section \<open>The claims\<close>

subsection \<open>C1\<close>



subsection \<open>C2\<close>

text \<open>
  C2, as the code has it. On the database that \<^verbatim>\<open>load_sample_data\<close> leaves behind
  when run on empty tables, \<^verbatim>\<open>fetch_flights(flight_number="SI2203")\<close> fetches exactly
  one row: flight SI2203 from Exeter Airport to Jersey Airport, 08:35:00 to 09:20:00,
  on 2025-04-06, pilot P0010002, status \<^verbatim>\<open>landed\<close>; the flight of that row departs
  from destination code EXE and arrives at JER.
\<close>

theorem si2203_on_sample_data:
  "fetch_flights_result (PStr ''SI2203'') PNone PNone PNone PNone
       (disk (snd (load_sample_data (fresh empty_db)))) =
     Inr [[SText ''SI2203'', SText ''Exeter Airport'', SText ''Jersey Airport'',
           SText ''08:35:00'', SText ''09:20:00'', SText ''2025-04-06'', SText ''P0010002'',
           SText ''landed'']]
   \<and> map (\<lambda>(a, b, c, d, e, f). (c, d)) (filter (\<lambda>(a, b, c, d, e, f). b = ''SI2203'') flights)
       = [(''EXE'', ''JER'')]"
  by code_simp

text \<open>
  C2, as the claim states it, fails: the status of the one row fetched for SI2203 is
  not \<^verbatim>\<open>scheduled\<close>.
\<close>

theorem si2203_status_not_scheduled:
  "map last (projr (fetch_flights_result (PStr ''SI2203'') PNone PNone PNone PNone
                      (disk (snd (load_sample_data (fresh empty_db))))))
     \<noteq> [SText ''scheduled'']"
  by code_simp

subsection \<open>C3\<close>

text \<open>
  C3. For a \<^verbatim>\<open>schedule_id\<close> that exists, \<^verbatim>\<open>modify_schedule\<close> either returns with
  every supplied field set in the committed row (and nothing else changed), or raises
  with the committed tables exactly as they were. It returns when every supplied
  value can be stored, and raises as soon as one statement of the batch fails.
\<close>

theorem modify_schedule_all_or_nothing:
  assumes "in_int64 schedule_id"
    "\<exists>fs\<in>set (f_schedule (disk w)). fs_schedule_ID fs = schedule_id"
  shows "if (truthy new_departure_time \<longrightarrow> storable new_departure_time)
            \<and> (truthy new_arrival_time \<longrightarrow> storable new_arrival_time)
            \<and> (truthy new_status \<longrightarrow> storable new_status)
         then fst (modify_schedule (Some schedule_id) new_departure_time new_arrival_time
                     new_status w) = Returned
              \<and> disk (snd (modify_schedule (Some schedule_id) new_departure_time
                             new_arrival_time new_status w)) =
                  (disk w)\<lparr>f_schedule :=
                     map (\<lambda>fs. if fs_schedule_ID fs = schedule_id
                               then with_fields new_departure_time new_arrival_time new_status fs
                               else fs) (f_schedule (disk w))\<rparr>
         else (\<exists>e. fst (modify_schedule (Some schedule_id) new_departure_time new_arrival_time
                           new_status w) = Raised e)
              \<and> disk (snd (modify_schedule (Some schedule_id) new_departure_time
                             new_arrival_time new_status w)) = disk w"
proof -
  from assms(2) obtain r rest where
    found: "filter (\<lambda>fs. fs_schedule_ID fs = schedule_id) (f_schedule (disk w)) = r # rest"
    by (cases "filter (\<lambda>fs. fs_schedule_ID fs = schedule_id) (f_schedule (disk w))")
       (auto simp: filter_empty_conv)
  note shape = modify_schedule_found [OF assms(1) found,
      of new_departure_time new_arrival_time new_status]
  show ?thesis
  proof (cases "(truthy new_departure_time \<longrightarrow> storable new_departure_time)
            \<and> (truthy new_arrival_time \<longrightarrow> storable new_arrival_time)
            \<and> (truthy new_status \<longrightarrow> storable new_status)")
    case True
    then have "schedule_batch new_departure_time new_arrival_time new_status schedule_id (disk w)
        = Inr ((disk w)\<lparr>f_schedule :=
                     map (\<lambda>fs. if fs_schedule_ID fs = schedule_id
                               then with_fields new_departure_time new_arrival_time new_status fs
                               else fs) (f_schedule (disk w))\<rparr>)"
      using schedule_batch_ok [OF assms(1)] by blast
    with shape True show ?thesis by simp
  next
    case False
    from schedule_batch_fail [OF assms False] obtain e where
      "schedule_batch new_departure_time new_arrival_time new_status schedule_id (disk w) = Inl e"
      by blast
    with shape False show ?thesis by simp
  qed
qed

text \<open>
  C3 on the seeded database, for schedule 2: an arrival time and a status are committed
  together; with a status the engine rejects (a \<^verbatim>\<open>bytes\<close> value) the earlier update
  of the arrival time is not committed either.
\<close>

theorem modify_schedule_all_or_nothing_witness:
  "in_int64 2
   \<and> (\<exists>fs\<in>set (f_schedule (disk (fresh sample_db))). fs_schedule_ID fs = 2)
   \<and> fst (modify_schedule (Some 2) PNone (PStr ''13:00'') (PStr ''delayed'') (fresh sample_db))
       = Returned
   \<and> disk (snd (modify_schedule (Some 2) PNone (PStr ''13:00'') (PStr ''delayed'')
                  (fresh sample_db))) =
       (disk (fresh sample_db))\<lparr>f_schedule :=
          map (\<lambda>fs. if fs_schedule_ID fs = 2
                    then with_fields PNone (PStr ''13:00'') (PStr ''delayed'') fs else fs)
            (f_schedule (disk (fresh sample_db)))\<rparr>
   \<and> (\<exists>e. fst (modify_schedule (Some 2) PNone (PStr ''13:00'') (PBytes ''late'')
                  (fresh sample_db)) = Raised e)
   \<and> disk (snd (modify_schedule (Some 2) PNone (PStr ''13:00'') (PBytes ''late'')
                  (fresh sample_db))) = disk (fresh sample_db)"
proof -
  have h1: "in_int64 2" by (simp add: in_int64_def)
  have h2: "\<exists>fs\<in>set (f_schedule (disk (fresh sample_db))). fs_schedule_ID fs = 2"
    by (simp add: fresh_def sample_db_tables schedule_def schedule_of_def)
  show ?thesis
    using h1 h2
      modify_schedule_all_or_nothing [OF h1 h2, of PNone "PStr ''13:00''" "PStr ''delayed''"]
      modify_schedule_all_or_nothing [OF h1 h2, of PNone "PStr ''13:00''" "PBytes ''late''"]
    by simp
qed

subsection \<open>C4\<close>



subsection \<open>C5\<close>

text \<open>
  C5 at \<^verbatim>\<open>assign_pilot(pilot_id=None, ...)\<close> on the seeded database: the missing
  identifier is reported and the tables are unchanged, but a connection has been opened
  (and closed again) before the check. \<^verbatim>\<open>modify_schedule\<close> without a schedule
  identifier and \<^verbatim>\<open>modify_destination\<close> without a destination code return before
  any connection is opened (and before \<^verbatim>\<open>str.upper\<close>, the parameter \<open>str_upper\<close>, is
  applied).
\<close>

theorem assign_pilot_opens_before_validating:
  "assign_pilot PNone (PStr ''SI2207'') (PStr ''2025-04-21'') (PStr ''Exeter'')
       (PStr ''Jersey'') [] (fresh sample_db) =
     (Returned,
      \<lparr>disk = sample_db, conns = [\<lparr>is_open = False, pending = None\<rparr>],
       printed = [NoPilotId]\<rparr>)
   \<and> modify_schedule None (PStr ''12:00'') PNone PNone (fresh sample_db) =
       (Returned, \<lparr>disk = sample_db, conns = [], printed = [NoScheduleId]\<rparr>)
   \<and> modify_destination str_upper PNone PNone (PStr ''Paris'') PNone (fresh sample_db) =
       (Returned, \<lparr>disk = sample_db, conns = [], printed = [NoDestinationCode]\<rparr>)"
  by (simp add: missing_argument_general fresh_def say_def closed_def)

subsection \<open>C6\<close>

text \<open>
  C6 at the operator input \<^verbatim>\<open>maybe\<close>, \<^verbatim>\<open>perhaps\<close>, \<^verbatim>\<open>yes\<close> on the seeded database:
  after the first unrecognised line the loop prompts again, but the second one ends
  \<^verbatim>\<open>assign_pilot\<close> with a \<^verbatim>\<open>ProgrammingError\<close>, raised when the connection that the
  first pass closed is closed again; the \<^verbatim>\<open>yes\<close> that follows is never read, and the
  tables are unchanged.
\<close>

theorem second_unrecognised_input_raises:
  "assign_pilot (PStr ''P0010007'') (PStr ''SI2207'') (PStr ''2025-04-21'')
       (PStr ''Exeter'') (PStr ''Jersey'') [''maybe'', ''perhaps'', ''yes'']
       (fresh sample_db) =
     (Raised ProgrammingError,
      \<lparr>disk = sample_db,
       conns = [closed, closed, closed, closed, closed, closed, closed],
       printed =
         [pilots_shown (PStr ''P0010007'') sample_db,
          flights_shown (PStr ''SI2207'') (PStr ''Exeter'') (PStr ''Jersey'')
            (PStr ''2025-04-21'') sample_db,
          pilots_shown (PStr ''P0010007'') sample_db,
          flights_shown (PStr ''SI2207'') (PStr ''Exeter'') (PStr ''Jersey'')
            (PStr ''2025-04-21'') sample_db,
          pilots_shown (PStr ''P0010007'') sample_db,
          flights_shown (PStr ''SI2207'') (PStr ''Exeter'') (PStr ''Jersey'')
            (PStr ''2025-04-21'') sample_db]\<rparr>)"
proof -
  have "assign_pilot (PStr ''P0010007'') (PStr ''SI2207'') (PStr ''2025-04-21'')
       (PStr ''Exeter'') (PStr ''Jersey'') (''maybe'' # ''perhaps'' # [''yes''])
       (fresh sample_db) =
     (Raised ProgrammingError,
      (fresh sample_db)\<lparr>conns := conns (fresh sample_db) @
           [closed, closed, closed, closed, closed, closed, closed],
         printed := printed (fresh sample_db) @
           [pilots_shown (PStr ''P0010007'') (disk (fresh sample_db)),
            flights_shown (PStr ''SI2207'') (PStr ''Exeter'') (PStr ''Jersey'')
              (PStr ''2025-04-21'') (disk (fresh sample_db)),
            pilots_shown (PStr ''P0010007'') (disk (fresh sample_db)),
            flights_shown (PStr ''SI2207'') (PStr ''Exeter'') (PStr ''Jersey'')
              (PStr ''2025-04-21'') (disk (fresh sample_db)),
            pilots_shown (PStr ''P0010007'') (disk (fresh sample_db)),
            flights_shown (PStr ''SI2207'') (PStr ''Exeter'') (PStr ''Jersey'')
              (PStr ''2025-04-21'') (disk (fresh sample_db))]\<rparr>)"
    by (rule assign_pilot_unrecognised_twice [THEN conjunct2])
       (simp_all add: bindable_bind sample_world_facts)
  then show ?thesis by (simp add: fresh_def)
qed

subsection \<open>C7\<close>



subsection \<open>C8\<close>

text \<open>
  C8 on the seeded database: \<^verbatim>\<open>modify_schedule\<close> with an unknown schedule identifier
  returns with the connection it opened still open; so does \<^verbatim>\<open>assign_pilot\<close> when
  the criteria are incomplete, when the operator answers \<^verbatim>\<open>no\<close>, and when the flight
  does not resolve (two connections); and \<^verbatim>\<open>modify_schedule\<close> left by an exception
  leaves its connection open inside its transaction.
\<close>

theorem early_return_leaves_connection_open:
  "fst (modify_schedule (Some 999) PNone PNone (PStr ''delayed'') (fresh sample_db)) = Returned
   \<and> map is_open (conns (snd (modify_schedule (Some 999) PNone PNone (PStr ''delayed'')
                                 (fresh sample_db)))) = [True]
   \<and> fst (assign_pilot (PStr ''P0010007'') (PStr ''SI2207'') PNone PNone PNone []
            (fresh sample_db)) = Returned
   \<and> map is_open (conns (snd (assign_pilot (PStr ''P0010007'') (PStr ''SI2207'') PNone PNone
                                 PNone [] (fresh sample_db)))) = [True, False]
   \<and> fst (assign_pilot (PStr ''P0010007'') (PStr ''SI2207'') (PStr ''2025-04-21'')
            (PStr ''Exeter'') (PStr ''Jersey'') [''no''] (fresh sample_db)) = Returned
   \<and> map is_open (conns (snd (assign_pilot (PStr ''P0010007'') (PStr ''SI2207'')
                                 (PStr ''2025-04-21'') (PStr ''Exeter'') (PStr ''Jersey'')
                                 [''no''] (fresh sample_db)))) = [True, False, False]
   \<and> fst (assign_pilot (PStr ''P0010007'') (PStr ''SI9999'') (PStr ''2025-04-21'')
            (PStr ''Exeter'') (PStr ''Jersey'') [''yes''] (fresh sample_db)) = Returned
   \<and> map is_open (conns (snd (assign_pilot (PStr ''P0010007'') (PStr ''SI9999'')
                                 (PStr ''2025-04-21'') (PStr ''Exeter'') (PStr ''Jersey'')
                                 [''yes''] (fresh sample_db)))) = [True, False, False, True]
   \<and> fst (modify_schedule (Some 2) PNone PNone (PBytes ''late'') (fresh sample_db))
       = Raised IntegrityError
   \<and> map is_open (conns (snd (modify_schedule (Some 2) PNone PNone (PBytes ''late'')
                                 (fresh sample_db)))) = [True]"
proof -
  have unknown: "modify_schedule (Some 999) PNone PNone (PStr ''delayed'') (fresh sample_db) =
      (Returned, idle (fresh sample_db) (printed (fresh sample_db) @ [ScheduleMissing 999]))"
    by (rule modify_schedule_missing) (simp_all add: in_int64_def sample_world_facts)
  have incomplete: "assign_pilot (PStr ''P0010007'') (PStr ''SI2207'') PNone PNone PNone []
      (fresh sample_db) =
      (Returned, (fresh sample_db)\<lparr>conns := conns (fresh sample_db) @ [opened, closed],
         printed := printed (fresh sample_db) @
           [pilots_shown (PStr ''P0010007'') (disk (fresh sample_db)), CriteriaIncomplete]\<rparr>)"
    by (rule assign_pilot_incomplete) (simp_all add: bindable_bind)
  have prelude: "assign_pilot (PStr ''P0010007'') fn (PStr ''2025-04-21'')
      (PStr ''Exeter'') (PStr ''Jersey'') ls (fresh sample_db) =
      confirm_loop (PStr ''P0010007'') fn (PStr ''2025-04-21'') (PStr ''Exeter'')
        (PStr ''Jersey'') (length (conns (fresh sample_db))) ls
        ((fresh sample_db)\<lparr>conns := conns (fresh sample_db) @ [opened, closed, closed],
           printed := printed (fresh sample_db) @
             [pilots_shown (PStr ''P0010007'') (disk (fresh sample_db)),
              flights_shown fn (PStr ''Exeter'') (PStr ''Jersey'') (PStr ''2025-04-21'')
                (disk (fresh sample_db))]\<rparr>)"
    if "fn = PStr ''SI2207'' \<or> fn = PStr ''SI9999''" for fn ls
    using that by (intro assign_pilot_prelude) (auto simp: bindable_bind)
  have missing: "flight_id_lookup (PStr ''SI9999'') (PStr ''Exeter'') (PStr ''Jersey'')
      (disk ((fresh sample_db)\<lparr>conns := cs, printed := ps\<rparr>)) = Inr []" for cs ps
    using sample_world_facts(10) by (simp add: fresh_def)
  obtain d' where failed:
    "fst (modify_schedule (Some 2) PNone PNone (PBytes ''late'') (fresh sample_db))
       = Raised IntegrityError"
    "conns (snd (modify_schedule (Some 2) PNone PNone (PBytes ''late'') (fresh sample_db)))
       = conns (fresh sample_db) @ [\<lparr>is_open = True, pending = Some d'\<rparr>]"
  proof -
    from sample_world_facts(7) obtain r rest where
      "filter (\<lambda>fs. fs_schedule_ID fs = 2) (f_schedule (disk (fresh sample_db))) = r # rest"
      by (cases "filter (\<lambda>fs. fs_schedule_ID fs = 2) (f_schedule (disk (fresh sample_db)))")
         (auto simp: filter_empty_conv)
    from modify_schedule_found [OF _ this, of PNone PNone "PBytes ''late''"]
      sample_world_facts(8) that
    show ?thesis by (auto simp: in_int64_def)
  qed
  have fr: "conns (fresh sample_db) = []" "printed (fresh sample_db) = []"
    by (simp_all add: fresh_def)
  show ?thesis
    by (simp add: unknown incomplete prelude confirm_step_no confirm_step_yes_missing missing
        sample_world_facts failed disk_idle idle_def opened_def closed_def say_def fr)
qed

subsection \<open>C9\<close>

text \<open>
  C9. For every optional filter of the three \<^verbatim>\<open>fetch_\<close> functions and every optional
  update field of \<^verbatim>\<open>modify_schedule\<close> and \<^verbatim>\<open>modify_destination\<close>, a value that fails
  Python's truth test (the empty string, 0, empty bytes) gives exactly the run that
  \<^verbatim>\<open>None\<close> gives: the same outcome, the same tables, connections and output. For
  \<^verbatim>\<open>modify_destination\<close> this holds whatever \<^verbatim>\<open>str.upper\<close> does to the destination
  code (the parameter \<open>str_upper\<close>).
\<close>

theorem falsy_is_absent:
  assumes "\<not> truthy v"
  shows "fetch_flights v b c d e w = fetch_flights PNone b c d e w
       \<and> fetch_flights a v c d e w = fetch_flights a PNone c d e w
       \<and> fetch_flights a b v d e w = fetch_flights a b PNone d e w
       \<and> fetch_flights a b c v e w = fetch_flights a b c PNone e w
       \<and> fetch_flights a b c d v w = fetch_flights a b c d PNone w
       \<and> fetch_pilots v b c w = fetch_pilots PNone b c w
       \<and> fetch_pilots a v c w = fetch_pilots a PNone c w
       \<and> fetch_pilots a b v w = fetch_pilots a b PNone w
       \<and> fetch_destinations v b c d w = fetch_destinations PNone b c d w
       \<and> fetch_destinations a v c d w = fetch_destinations a PNone c d w
       \<and> fetch_destinations a b v d w = fetch_destinations a b PNone d w
       \<and> fetch_destinations a b c v w = fetch_destinations a b c PNone w
       \<and> modify_schedule schedule_id v b c w = modify_schedule schedule_id PNone b c w
       \<and> modify_schedule schedule_id a v c w = modify_schedule schedule_id a PNone c w
       \<and> modify_schedule schedule_id a b v w = modify_schedule schedule_id a b PNone w
       \<and> modify_destination str_upper destination_code v b c w
           = modify_destination str_upper destination_code PNone b c w
       \<and> modify_destination str_upper destination_code a v c w
           = modify_destination str_upper destination_code a PNone c w
       \<and> modify_destination str_upper destination_code a b v w
           = modify_destination str_upper destination_code a b PNone w"
  by (simp add: fetch_flights_falsy [OF assms] fetch_pilots_falsy [OF assms]
      fetch_destinations_falsy [OF assms] modify_schedule_falsy [OF assms]
      modify_destination_falsy [OF assms])

text \<open>
  C9 for the empty string and for 0 on the seeded database:
  \<^verbatim>\<open>fetch_flights(flight_number="")\<close> runs as \<^verbatim>\<open>fetch_flights()\<close>, and
  \<^verbatim>\<open>modify_schedule(2, new_status="")\<close> leaves the tables as they were. The
  destination code \<^verbatim>\<open>EMA\<close> is ASCII, where \<^verbatim>\<open>str.upper\<close> is \<open>ascii_upper\<close>.
\<close>

theorem falsy_is_absent_witness:
  "\<not> truthy (PStr [])
   \<and> fetch_flights (PStr []) PNone PNone PNone PNone (fresh sample_db)
       = fetch_flights PNone PNone PNone PNone PNone (fresh sample_db)
   \<and> disk (snd (modify_schedule (Some 2) PNone PNone (PStr []) (fresh sample_db)))
       = sample_db
   \<and> \<not> truthy (PInt 0)
   \<and> fetch_destinations PNone PNone PNone (PInt 0) (fresh sample_db)
       = fetch_destinations PNone PNone PNone PNone (fresh sample_db)
   \<and> modify_destination ascii_upper (PStr ''EMA'') PNone (PInt 0) PNone (fresh sample_db)
       = modify_destination ascii_upper (PStr ''EMA'') PNone PNone PNone (fresh sample_db)"
proof -
  have h1: "\<not> truthy (PStr [])" by simp
  have h2: "\<not> truthy (PInt 0)" by simp
  show ?thesis
    using h1 h2 empty_status_updates_nothing
      falsy_is_absent [OF h1, where w = "fresh sample_db" and schedule_id = "Some 2"
        and str_upper = ascii_upper
        and destination_code = "PStr ''EMA''" and a = PNone and b = PNone and c = PNone
        and d = PNone and e = PNone]
      falsy_is_absent [OF h2, where w = "fresh sample_db" and schedule_id = "Some 2"
        and str_upper = ascii_upper
        and destination_code = "PStr ''EMA''" and a = PNone and b = PNone and c = PNone
        and d = PNone and e = PNone]
    by simp
qed

subsection \<open>C10\<close>



end
